theory Spec2Isabelle
  imports Main
begin

section \<open>Values and variable namespaces\<close>

text \<open>
  The values a smashtest variable can hold. The spec restricts variables to strings, numbers
  and booleans; anything else a code block may return (a required package, an array) is an
  opaque \<open>Object\<close>. Numbers are modelled as integers (no fractions, no \<open>NaN\<close>).
\<close>

datatype jsval = Undefined | Null | Bool bool | Num int | Str string | Object nat

text \<open>JavaScript truthiness, as used by \<open>if(value)\<close>.\<close>

fun truthy :: "jsval \<Rightarrow> bool" where
  "truthy Undefined = False"
| "truthy Null = False"
| "truthy (Bool b) = b"
| "truthy (Num n) = (n \<noteq> 0)"
| "truthy (Str s) = (s \<noteq> [])"
| "truthy (Object a) = True"

text \<open>\<open>['string', 'boolean', 'number'].indexOf(typeof value) != -1\<close>\<close>

fun isScalar :: "jsval \<Rightarrow> bool" where
  "isScalar (Str s) = True"
| "isScalar (Bool b) = True"
| "isScalar (Num n) = True"
| "isScalar v = False"

text \<open>
  A namespace (\<open>persistent\<close>, \<open>global\<close>, \<open>local\<close>, \<open>localsPassedIntoFunc\<close>) is a plain object
  used as a dictionary: a map from property names to values. Reading a missing property
  gives \<open>undefined\<close>. Properties inherited from \<open>Object.prototype\<close> are not modelled.
\<close>

type_synonym vars = "string \<Rightarrow> jsval option"

definition getProp :: "vars \<Rightarrow> string \<Rightarrow> jsval" where
  "getProp m k = (case m k of None \<Rightarrow> Undefined | Some v \<Rightarrow> v)"

section \<open>Steps, branches and errors\<close>

record varBeingSet =
  vname :: string
  vvalue :: string
  visLocal :: bool

text \<open>
  The read-only part of a \<open>Step\<close>. \<open>ident\<close> stands for the identity of the JavaScript object
  (\<open>indexOf\<close> compares references). \<open>functionDeclarationInTree\<close> is the filename and line
  number of \<open>step.originalStepInTree.functionDeclarationInTree\<close>, \<open>None\<close> when that chain
  of references is broken. \<open>stepText\<close> is the field \<open>text\<close>.
\<close>

record step =
  ident :: nat
  filename :: "string option"
  lineNumber :: nat
  line :: string
  stepText :: string
  branchIndents :: nat
  isFunctionCall :: bool
  isHook :: bool
  isPackaged :: bool
  isBeforeDebug :: bool
  isAfterDebug :: bool
  isExpectedFail :: bool
  codeBlock :: "string option"
  functionDeclarationText :: "string option"
  functionDeclarationInTree :: "(string option \<times> nat) option"
  varsBeingSet :: "varBeingSet list option"

text \<open>
  Modelled from the spec: \<open>Step.hasCodeBlock\<close> (step.js is not among the sources); the spec
  gives a step an optional \<open>codeBlock\<close> string.
\<close>

definition hasCodeBlock :: "step \<Rightarrow> bool" where
  "hasCodeBlock s = (codeBlock s \<noteq> None)"

record branch =
  bident :: nat
  steps :: "step list"
  beforeEveryBranch :: "step list option"
  afterEveryBranch :: "step list option"
  beforeEveryStep :: "step list option"
  afterEveryStep :: "step list option"

text \<open>
  An error object. Thrown values live in a store and are passed around by address, because
  the engine mutates them in place (\<open>fillErrorFromStep\<close>, \<open>markBranch\<close>) while steps and
  branches keep references to them.
\<close>

record errobj =
  ename :: string
  message :: "string option"
  stack :: "string option"
  efilename :: "string option"
  elineNumber :: "nat option"
  continue :: bool
  msg :: "string option"
  stackTrace :: "string option"

datatype logItem = LogText string | LogItem jsval

text \<open>
  The writable properties of a \<open>Step\<close> or \<open>Branch\<close> object. A flag that is deleted or was
  never set is \<open>False\<close>; \<open>error\<close> is the address of the recorded error object.
\<close>

record results =
  isPassed :: bool
  isFailed :: bool
  isSkipped :: bool
  isRunning :: bool
  passedLastTime :: bool
  asExpected :: "bool option"
  error :: "nat option"
  log :: "logItem list option"

datatype logTarget = StepTarget step | BranchTarget branch

text \<open>An object on which nothing has been recorded yet, and an error object before it is filled.\<close>

definition blankResults :: results where
  "blankResults = \<lparr>isPassed = False, isFailed = False, isSkipped = False, isRunning = False,
     passedLastTime = False, asExpected = None, error = None, log = None\<rparr>"

definition blankError :: errobj where
  "blankError = \<lparr>ename = ''Error'', message = Some [], stack = Some [], efilename = None,
     elineNumber = None, continue = False, msg = None, stackTrace = None\<rparr>"

section \<open>The RunInstance\<close>

text \<open>
  The fields of a \<open>RunInstance\<close>, the fields of its \<open>runner\<close> that it reads or writes
  (\<open>runnerIsPaused\<close>, \<open>pauseOnFail\<close>, \<open>globalInit\<close>; \<open>persistent\<close> is the runner's object),
  and the objects reachable from it: the writable properties of step and branch objects
  by identity, and the store of error objects with its allocation counter. \<open>local\<close> is
  \<open>None\<close> when the field holds \<open>undefined\<close> (after a pop of an empty stack). Time stamps
  and console output are left out.
\<close>

record inst =
  currBranch :: "branch option"
  currStep :: "step option"
  isPaused :: bool
  isStopped :: bool
  runnerIsPaused :: bool
  pauseOnFail :: bool
  globalInit :: vars
  persistent :: vars
  global :: vars
  local :: "vars option"
  localStack :: "vars option list"
  localsPassedIntoFunc :: vars
  stepsRan :: "step list"
  stepObj :: "nat \<Rightarrow> results"
  branchObj :: "nat \<Rightarrow> results"
  errs :: "nat \<Rightarrow> errobj"
  nextObj :: nat

text \<open>
  The constructor: no branch, not paused, not stopped, the runner's \<open>persistent\<close>, empty
  \<open>global\<close> and \<open>local\<close>, an empty stack; the object stores start blank.
\<close>

definition newRunInstance :: "vars \<Rightarrow> vars \<Rightarrow> bool \<Rightarrow> inst" where
  "newRunInstance runnerPersistent runnerGlobalInit runnerPauseOnFail =
     \<lparr>currBranch = None, currStep = None, isPaused = False, isStopped = False,
      runnerIsPaused = False, pauseOnFail = runnerPauseOnFail, globalInit = runnerGlobalInit,
      persistent = runnerPersistent, global = Map.empty, local = Some Map.empty,
      localStack = [], localsPassedIntoFunc = Map.empty, stepsRan = [],
      stepObj = (\<lambda>i. blankResults), branchObj = (\<lambda>i. blankResults),
      errs = (\<lambda>a. blankError), nextObj = 0\<rparr>"

subsection \<open>The local stack\<close>

text \<open>
  \<open>pushLocalStack\<close>: \<open>this.localStack.push(this.local); this.local = {};
  Object.assign(this.local, this.localsPassedIntoFunc); this.localsPassedIntoFunc = {};\<close>
\<close>

definition pushLocalStack :: "inst \<Rightarrow> inst" where
  "pushLocalStack w =
     w\<lparr>localStack := localStack w @ [local w],
       local := Some (localsPassedIntoFunc w),
       localsPassedIntoFunc := Map.empty\<rparr>"

text \<open>
  \<open>popLocalStack\<close>: \<open>this.local = this.localStack.pop();\<close> \<open>Array.prototype.pop\<close> on an
  empty array returns \<open>undefined\<close> and leaves the array empty.
\<close>

definition popLocalStack :: "inst \<Rightarrow> inst" where
  "popLocalStack w =
     (if localStack w = [] then w\<lparr>local := None\<rparr>
      else w\<lparr>local := last (localStack w), localStack := butlast (localStack w)\<rparr>)"

subsection \<open>Collaborators outside the sources\<close>

text \<open>
  What the engine calls but the sources do not contain, taken as parameters: the helpers
  of utils.js and the regular expressions of constants.js (\<open>matchVAR s\<close> is
  \<open>s.match(Constants.VAR)\<close> with \<open>[]\<close> for \<open>null\<close>, and so on), \<open>String.prototype.replace\<close>,
  the stack trace the host gives a new error, the depth of calls its stack allows, the
  evaluation of a generated code block by \<open>eval\<close> (the user's code can change any part
  of the instance and either returns a value or throws the error object at the address it
  returns), and the \<open>Tree\<close> with \<open>markStep\<close>, \<open>nextBranch()\<close> and \<open>nextStep(branch,
  advance, skipsRepeats)\<close>. \<open>markStepCall\<close> holds the arguments of one call of
  \<open>tree.markStep(step, branch, isPassed, asExpected, error, finishBranchNow,
  continueOnFail)\<close>; an argument that is left out or \<open>undefined\<close> is \<open>None\<close>.
\<close>

record markStepCall =
  mStep :: step
  mBranch :: "branch option"
  mIsPassed :: bool
  mAsExpected :: bool
  mError :: "nat option"
  mFinishBranchNow :: "bool option"
  mContinueOnFail :: "bool option"

record ext =
  canonicalize :: "string \<Rightarrow> string"
  keepCaseCanonicalize :: "string \<Rightarrow> string"
  stripQuotes :: "string \<Rightarrow> string"
  stripBrackets :: "string \<Rightarrow> string"
  unescape :: "string \<Rightarrow> string"
  matchVAR :: "string \<Rightarrow> string list"
  matchFUNCTION_INPUT :: "string \<Rightarrow> string list"
  isSTRING_LITERAL_WHOLE :: "string \<Rightarrow> bool"
  isVAR_WHOLE :: "string \<Rightarrow> bool"
  stringReplace :: "string \<Rightarrow> string \<Rightarrow> string \<Rightarrow> string"
  errorStack :: "string \<Rightarrow> string \<Rightarrow> string"
  callStackDepth :: nat
  jsEval :: "string option \<Rightarrow> string \<Rightarrow> nat \<Rightarrow> logTarget option \<Rightarrow> bool \<Rightarrow> inst
               \<Rightarrow> (nat + jsval) \<times> inst"
  treeMarkStep :: "markStepCall \<Rightarrow> inst \<Rightarrow> inst"
  treeNextBranch :: "inst \<Rightarrow> branch option \<times> inst"
  treeNextStep :: "branch option \<Rightarrow> bool option \<Rightarrow> bool option \<Rightarrow> inst \<Rightarrow> step option \<times> inst"

subsection \<open>Throwing\<close>

text \<open>
  A function that can throw returns \<open>Inl a\<close>, the address of the thrown error object, or
  \<open>Inr v\<close>, together with the instance as the call left it. \<open>newError X n m\<close> is
  \<open>new n(m)\<close>, an error object at a fresh address, and \<open>throwNew X n m\<close> throws it. A
  \<open>TypeError\<close> is what the runtime throws on a property access on \<open>undefined\<close> (the
  message text is the host's, a placeholder here).
\<close>

definition newError :: "ext \<Rightarrow> string \<Rightarrow> string \<Rightarrow> inst \<Rightarrow> nat \<times> inst" where
  "newError X n m w =
     (nextObj w,
      w\<lparr>errs := (errs w)(nextObj w :=
             \<lparr>ename = n, message = Some m, stack = Some (errorStack X n m),
              efilename = None, elineNumber = None, continue = False,
              msg = None, stackTrace = None\<rparr>),
        nextObj := Suc (nextObj w)\<rparr>)"

definition throwNew :: "ext \<Rightarrow> string \<Rightarrow> string \<Rightarrow> inst \<Rightarrow> (nat + 'a) \<times> inst" where
  "throwNew X n m w = (Inl (fst (newError X n m w)), snd (newError X n m w))"

definition newTypeError :: "ext \<Rightarrow> inst \<Rightarrow> nat \<times> inst" where
  "newTypeError X w = newError X ''TypeError'' ''Cannot read properties of undefined'' w"

definition throwTypeError :: "ext \<Rightarrow> inst \<Rightarrow> (nat + 'a) \<times> inst" where
  "throwTypeError X w = (Inl (fst (newTypeError X w)), snd (newTypeError X w))"

text \<open>
  Modelled from the spec: \<open>utils.error\<close> (utils.js is not among the sources) throws a new
  error carrying the given message.
\<close>

definition utilsError :: "ext \<Rightarrow> string \<Rightarrow> inst \<Rightarrow> (nat + 'a) \<times> inst" where
  "utilsError X m w = throwNew X ''Error'' m w"

definition updErr :: "nat \<Rightarrow> (errobj \<Rightarrow> errobj) \<Rightarrow> inst \<Rightarrow> inst" where
  "updErr a f w = w\<lparr>errs := (errs w)(a := f (errs w a))\<rparr>"

definition updStep :: "step \<Rightarrow> (results \<Rightarrow> results) \<Rightarrow> inst \<Rightarrow> inst" where
  "updStep s f w = w\<lparr>stepObj := (stepObj w)(ident s := f (stepObj w (ident s)))\<rparr>"

definition updBranch :: "branch \<Rightarrow> (results \<Rightarrow> results) \<Rightarrow> inst \<Rightarrow> inst" where
  "updBranch b f w = w\<lparr>branchObj := (branchObj w)(bident b := f (branchObj w (bident b)))\<rparr>"

subsection \<open>Variables\<close>

definition getPersistent :: "ext \<Rightarrow> string \<Rightarrow> inst \<Rightarrow> jsval" where
  "getPersistent X varname w = getProp (persistent w) (canonicalize X varname)"

definition getGlobal :: "ext \<Rightarrow> string \<Rightarrow> inst \<Rightarrow> jsval" where
  "getGlobal X varname w = getProp (global w) (canonicalize X varname)"

text \<open>
  \<open>getLocal\<close> reads \<open>localsPassedIntoFunc\<close> first (\<open>hasOwnProperty\<close>), then \<open>this.local\<close>,
  which throws a \<open>TypeError\<close> when \<open>this.local\<close> is \<open>undefined\<close>.
\<close>

definition getLocal :: "ext \<Rightarrow> string \<Rightarrow> inst \<Rightarrow> (nat + jsval) \<times> inst" where
  "getLocal X varname w =
     (let k = canonicalize X varname in
      case localsPassedIntoFunc w k of
        Some v \<Rightarrow> (Inr v, w)
      | None \<Rightarrow>
          (case local w of
             None \<Rightarrow> throwTypeError X w
           | Some l \<Rightarrow> (Inr (getProp l k), w)))"

definition setPersistent :: "ext \<Rightarrow> string \<Rightarrow> jsval \<Rightarrow> inst \<Rightarrow> inst" where
  "setPersistent X varname v w =
     w\<lparr>persistent := (persistent w)
          (canonicalize X varname \<mapsto> v, keepCaseCanonicalize X varname \<mapsto> v)\<rparr>"

definition setGlobal :: "ext \<Rightarrow> string \<Rightarrow> jsval \<Rightarrow> inst \<Rightarrow> inst" where
  "setGlobal X varname v w =
     w\<lparr>global := (global w)
          (canonicalize X varname \<mapsto> v, keepCaseCanonicalize X varname \<mapsto> v)\<rparr>"

definition setLocal :: "ext \<Rightarrow> string \<Rightarrow> jsval \<Rightarrow> inst \<Rightarrow> (nat + unit) \<times> inst" where
  "setLocal X varname v w =
     (case local w of
        None \<Rightarrow> throwTypeError X w
      | Some l \<Rightarrow>
          (Inr (), w\<lparr>local := Some (l
             (canonicalize X varname \<mapsto> v, keepCaseCanonicalize X varname \<mapsto> v))\<rparr>))"

definition setLocalPassedIn :: "ext \<Rightarrow> string \<Rightarrow> jsval \<Rightarrow> inst \<Rightarrow> inst" where
  "setLocalPassedIn X varname v w =
     w\<lparr>localsPassedIntoFunc := (localsPassedIntoFunc w)
          (canonicalize X varname \<mapsto> v, keepCaseCanonicalize X varname \<mapsto> v)\<rparr>"

text \<open>\<open>setVarBeingSet\<close>\<close>

definition setVarBeingSet :: "ext \<Rightarrow> varBeingSet \<Rightarrow> jsval \<Rightarrow> inst \<Rightarrow> (nat + unit) \<times> inst" where
  "setVarBeingSet X vbs v w =
     (if visLocal vbs then setLocal X (vname vbs) v w
      else (Inr (), setGlobal X (vname vbs) v w))"

subsection \<open>Logs\<close>

text \<open>
  \<open>Branch.appendToLog\<close>: create the log if missing, push \<open>{text: item}\<close> for a string and
  the item itself otherwise.
\<close>

definition objAppendToLog :: "jsval \<Rightarrow> results \<Rightarrow> results" where
  "objAppendToLog item r =
     r\<lparr>log := Some ((case log r of None \<Rightarrow> [] | Some l \<Rightarrow> l)
                      @ [case item of Str s \<Rightarrow> LogText s | v \<Rightarrow> LogItem v])\<rparr>"

text \<open>
  Modelled from the spec: \<open>Step.appendToLog\<close> (step.js is not among the sources); a step has
  a \<open>log\<close> as a branch has, and it is taken to be filled the way \<open>Branch.appendToLog\<close> does.
\<close>

definition targetAppendToLog :: "logTarget \<Rightarrow> jsval \<Rightarrow> inst \<Rightarrow> inst" where
  "targetAppendToLog t item w =
     (case t of
        StepTarget s \<Rightarrow> updStep s (objAppendToLog item) w
      | BranchTarget b \<Rightarrow> updBranch b (objAppendToLog item) w)"

text \<open>\<open>appendToLog(text, logHere)\<close>: \<open>if(logHere && !this.isStopped) logHere.appendToLog(text)\<close>\<close>

definition appendToLog :: "jsval \<Rightarrow> logTarget option \<Rightarrow> inst \<Rightarrow> inst" where
  "appendToLog item logHere w =
     (case logHere of
        None \<Rightarrow> w
      | Some t \<Rightarrow> if \<not> isStopped w then targetAppendToLog t item w else w)"

text \<open>\<open>Branch.stop\<close>: delete \<open>isRunning\<close> on every step of the branch.\<close>

definition branchStop :: "branch \<Rightarrow> inst \<Rightarrow> inst" where
  "branchStop b w = fold (\<lambda>s. updStep s (\<lambda>r. r\<lparr>isRunning := False\<rparr>)) (steps b) w"

text \<open>\<open>stop()\<close>: \<open>this.isStopped = true; if(this.currBranch) this.currBranch.stop();\<close>\<close>

definition stop :: "inst \<Rightarrow> inst" where
  "stop w =
     (let w1 = w\<lparr>isStopped := True\<rparr> in
      case currBranch w1 of None \<Rightarrow> w1 | Some b \<Rightarrow> branchStop b w1)"

subsection \<open>Error locations\<close>

text \<open>
  The regular expression \<open>/at CodeBlock[^\n]+<anonymous>:[0-9]+/g\<close> of \<open>fillErrorFromStep\<close>,
  written out. \<open>anonymousTail\<close> matches \<open><anonymous>:[0-9]+\<close> at the head of its input
  (the digits greedily); \<open>greedyRest\<close> matches \<open>[^\n]*<anonymous>:[0-9]+\<close> and prefers, as
  a backtracking matcher does for a greedy star, to consume one more character;
  \<open>matchFrameAt\<close> matches the whole expression at the head of its input.
\<close>

definition isDigit :: "char \<Rightarrow> bool" where
  "isDigit c = (c \<in> set ''0123456789'')"

definition newline :: char where
  "newline = CHR 0x0A"

definition startsWith :: "string \<Rightarrow> string \<Rightarrow> bool" where
  "startsWith s p = (take (length p) s = p)"

definition anonymousTail :: "string \<Rightarrow> string option" where
  "anonymousTail s =
     (if startsWith s ''<anonymous>:'' \<and> takeWhile isDigit (drop 12 s) \<noteq> []
      then Some (''<anonymous>:'' @ takeWhile isDigit (drop 12 s)) else None)"

fun greedyRest :: "string \<Rightarrow> string option" where
  "greedyRest [] = None"
| "greedyRest (c # cs) =
     (case (if c \<noteq> newline then greedyRest cs else None) of
        Some m \<Rightarrow> Some (c # m)
      | None \<Rightarrow> anonymousTail (c # cs))"

definition matchFrameAt :: "string \<Rightarrow> string option" where
  "matchFrameAt s =
     (if startsWith s ''at CodeBlock'' then
        (case drop 12 s of
           [] \<Rightarrow> None
         | c # cs \<Rightarrow>
             if c \<noteq> newline
             then map_option (\<lambda>m. ''at CodeBlock'' @ c # m) (greedyRest cs)
             else None)
      else None)"

text \<open>
  \<open>stack.match(/.../g)\<close>: all matches from left to right, the search resuming behind each
  match (\<open>null\<close> is \<open>[]\<close>). The first argument counts the characters of the last match
  still to be passed over.
\<close>

fun matchCodeBlockFrames' :: "nat \<Rightarrow> string \<Rightarrow> string list" where
  "matchCodeBlockFrames' k [] = []"
| "matchCodeBlockFrames' (Suc k) (c # cs) = matchCodeBlockFrames' k cs"
| "matchCodeBlockFrames' 0 (c # cs) =
     (case matchFrameAt (c # cs) of
        Some m \<Rightarrow> m # matchCodeBlockFrames' (length m - 1) cs
      | None \<Rightarrow> matchCodeBlockFrames' 0 cs)"

definition matchCodeBlockFrames :: "string \<Rightarrow> string list" where
  "matchCodeBlockFrames s = matchCodeBlockFrames' 0 s"

text \<open>
  \<open>m.match(/([0-9]+)$/g)\<close>: the digits a string ends with; \<open>parseInt\<close> on digits (exact,
  as JavaScript's is for line numbers: numbers below \<open>2^53\<close>).
\<close>

definition trailingDigits :: "string \<Rightarrow> string" where
  "trailingDigits m = rev (takeWhile isDigit (rev m))"

definition parseInt :: "string \<Rightarrow> nat" where
  "parseInt ds = foldl (\<lambda>n c. 10 * n + (of_char c - 48)) 0 ds"

text \<open>
  \<open>fillErrorFromStep(error, step, inCodeBlock)\<close>, on the error object at address \<open>e\<close>. The
  two property chains that can be broken (\<open>step.originalStepInTree.functionDeclarationInTree\<close>
  and \<open>error.stack\<close>) throw a \<open>TypeError\<close>, after the assignments made so far.
\<close>

definition fillErrorFromStep :: "ext \<Rightarrow> nat \<Rightarrow> step \<Rightarrow> bool \<Rightarrow> inst \<Rightarrow> (nat + unit) \<times> inst" where
  "fillErrorFromStep X e st inCodeBlock w =
     (let w1 = updErr e (\<lambda>r. r\<lparr>efilename := filename st, elineNumber := Some (lineNumber st)\<rparr>) w;
          declared =
            (if isFunctionCall st \<and> inCodeBlock \<and> \<not> isHook st \<and> \<not> isPackaged st then
               (case functionDeclarationInTree st of
                  None \<Rightarrow> None
                | Some (f, n) \<Rightarrow> Some (updErr e (\<lambda>r. r\<lparr>efilename := f, elineNumber := Some n\<rparr>) w1))
             else Some w1)
      in case declared of
           None \<Rightarrow> throwTypeError X w1
         | Some w2 \<Rightarrow>
             if inCodeBlock \<and> \<not> isPackaged st then
               (case stack (errs w2 e) of
                  None \<Rightarrow> throwTypeError X w2
                | Some stk \<Rightarrow>
                    (case matchCodeBlockFrames stk of
                       [] \<Rightarrow> (Inr (), w2)
                     | m # ms \<Rightarrow>
                         (case trailingDigits m of
                            [] \<Rightarrow> (Inr (), w2)
                          | d # ds \<Rightarrow>
                              (Inr (), updErr e (\<lambda>r. r\<lparr>elineNumber := Some (parseInt (d # ds))\<rparr>) w2))))
             else (Inr (), w2))"

subsection \<open>Marking a branch\<close>

text \<open>
  \<open>Branch.markBranch(isPassed, error)\<close>. With an error, \<open>this.error = error\<close> and the error
  object gets \<open>msg\<close> and \<open>stackTrace\<close>; \<open>error.message.toString()\<close> and
  \<open>error.stack.toString()\<close> throw a \<open>TypeError\<close> on a missing property.
\<close>

definition markBranch :: "ext \<Rightarrow> branch \<Rightarrow> bool \<Rightarrow> nat option \<Rightarrow> inst \<Rightarrow> (nat + unit) \<times> inst" where
  "markBranch X b passed err w =
     (let w1 = (if passed
                then updBranch b (\<lambda>r. r\<lparr>isPassed := True, isFailed := False,
                                          isRunning := False, isSkipped := False\<rparr>) w
                else updBranch b (\<lambda>r. r\<lparr>isFailed := True, isPassed := False,
                                          isRunning := False, isSkipped := False\<rparr>) w)
      in case err of
           None \<Rightarrow> (Inr (), w1)
         | Some e \<Rightarrow>
             (let w2 = updBranch b (\<lambda>r. r\<lparr>error := Some e\<rparr>) w1 in
              case message (errs w2 e) of
                None \<Rightarrow> throwTypeError X w2
              | Some m \<Rightarrow>
                  (let w3 = updErr e (\<lambda>r. r\<lparr>msg := Some m\<rparr>) w2 in
                   case stack (errs w3 e) of
                     None \<Rightarrow> throwTypeError X w3
                   | Some stk \<Rightarrow> (Inr (), updErr e (\<lambda>r. r\<lparr>stackTrace := Some stk\<rparr>) w3))))"

subsection \<open>Code blocks and hooks\<close>

text \<open>
  \<open>evalCodeBlock(code, funcName, lineNumber, logHere, isSync)\<close> generates the source of a
  function \<open>CodeBlock_for_...\<close> around the code and hands it to \<open>eval\<close>. What the generated
  code does is the host's and the user's; the model takes it from \<open>jsEval\<close>. An
  asynchronous evaluation is awaited by every caller, so both modes give the result.
\<close>

definition evalCodeBlock ::
  "ext \<Rightarrow> string option \<Rightarrow> string \<Rightarrow> nat \<Rightarrow> logTarget option \<Rightarrow> bool \<Rightarrow> inst \<Rightarrow> (nat + jsval) \<times> inst" where
  "evalCodeBlock X code funcName lineNo logHere isSync w = jsEval X code funcName lineNo logHere isSync w"

text \<open>The target of a hook's log: \<open>stepToGetError || branchToGetError\<close>.\<close>

definition hookLogTarget :: "step option \<Rightarrow> branch option \<Rightarrow> logTarget option" where
  "hookLogTarget stepToGetError branchToGetError =
     (case stepToGetError of
        Some s \<Rightarrow> Some (StepTarget s)
      | None \<Rightarrow> map_option BranchTarget branchToGetError)"

text \<open>
  \<open>runHookStep(step, stepToGetError, branchToGetError, isSync)\<close>: \<open>Inr True\<close> when the hook
  ran through, \<open>Inr False\<close> when it threw and the failure was recorded, \<open>Inl\<close> when the
  \<open>catch\<close> block itself threw.
\<close>

definition runHookStep ::
  "ext \<Rightarrow> step \<Rightarrow> step option \<Rightarrow> branch option \<Rightarrow> bool \<Rightarrow> inst \<Rightarrow> (nat + bool) \<times> inst" where
  "runHookStep X hook stepToGetError branchToGetError isSync w =
     (case evalCodeBlock X (codeBlock hook) (stepText hook) (lineNumber hook)
             (hookLogTarget stepToGetError branchToGetError) isSync w of
        (Inr v, w1) \<Rightarrow> (Inr True, w1)
      | (Inl e, w1) \<Rightarrow>
          (case fillErrorFromStep X e hook True w1 of
             (Inl t, w2) \<Rightarrow> (Inl t, w2)
           | (Inr u, w2) \<Rightarrow>
               (case stepToGetError of
                  Some st \<Rightarrow>
                    (let w3 = treeMarkStep X
                                \<lparr>mStep = st, mBranch = None, mIsPassed = False, mAsExpected = False,
                                 mError = (if error (stepObj w2 (ident st)) \<noteq> None then None else Some e),
                                 mFinishBranchNow = None, mContinueOnFail = None\<rparr> w2
                     in case branchToGetError of
                          Some b \<Rightarrow>
                            (case markBranch X b False None w3 of
                               (Inl t, w4) \<Rightarrow> (Inl t, w4)
                             | (Inr u, w4) \<Rightarrow> (Inr False, w4))
                        | None \<Rightarrow> (Inr False, w3))
                | None \<Rightarrow>
                    (case branchToGetError of
                       Some b \<Rightarrow>
                         (case markBranch X b False
                                 (if error (branchObj w2 (bident b)) \<noteq> None then None else Some e) w2 of
                            (Inl t, w3) \<Rightarrow> (Inl t, w3)
                          | (Inr u, w3) \<Rightarrow> (Inr False, w3))
                     | None \<Rightarrow> (Inr False, w2)))))"

subsection \<open>Resolving variables\<close>

text \<open>Decimal rendering of numbers and \<open>String(value)\<close>, as string concatenation applies it.\<close>

fun showNat :: "nat \<Rightarrow> string" where
  "showNat n = (if n < 10 then [char_of (48 + n)] else showNat (n div 10) @ [char_of (48 + n mod 10)])"

definition showInt :: "int \<Rightarrow> string" where
  "showInt i = (if i < 0 then ''-'' @ showNat (nat (- i)) else showNat (nat i))"

fun jsToString :: "jsval \<Rightarrow> string" where
  "jsToString Undefined = ''undefined''"
| "jsToString Null = ''null''"
| "jsToString (Bool b) = (if b then ''true'' else ''false'')"
| "jsToString (Num n) = showInt n"
| "jsToString (Str s) = s"
| "jsToString (Object a) = ''[object Object]''"

text \<open>\<open>steps.indexOf(step)\<close>: the first position holding this very object, \<open>None\<close> for -1.\<close>

fun indexOf :: "step \<Rightarrow> step list \<Rightarrow> nat option" where
  "indexOf st [] = None"
| "indexOf st (x # xs) = (if ident x = ident st then Some 0 else map_option Suc (indexOf st xs))"

text \<open>\<open>new Branch()\<close> followed by pushes of the given steps: a fresh object without marks.\<close>

definition newBranch :: "step list \<Rightarrow> inst \<Rightarrow> branch \<times> inst" where
  "newBranch ss w =
     (\<lparr>bident = nextObj w, steps = ss, beforeEveryBranch = None, afterEveryBranch = None,
       beforeEveryStep = None, afterEveryStep = None\<rparr>,
      w\<lparr>branchObj := (branchObj w)(nextObj w := blankResults), nextObj := Suc (nextObj w)\<rparr>)"

text \<open>
  The two nested loops of \<open>findVarValue\<close> that go down the branch from the step: the first
  entry of a step's \<open>varsBeingSet\<close> with the same canonical name and the same \<open>isLocal\<close>,
  in the first step that has one. For a local variable the search ends (\<open>break\<close>) at a
  step with fewer \<open>branchIndents\<close> than the step it started from. The loops change
  nothing until they find an entry, so the search is a function of the steps.
\<close>

definition isSetterOf :: "ext \<Rightarrow> string \<Rightarrow> bool \<Rightarrow> varBeingSet \<Rightarrow> bool" where
  "isSetterOf X varname isLocal v =
     (canonicalize X (vname v) = canonicalize X varname \<and> visLocal v = isLocal)"

fun scanForSetter :: "ext \<Rightarrow> string \<Rightarrow> bool \<Rightarrow> step \<Rightarrow> step list \<Rightarrow> (step \<times> varBeingSet) option" where
  "scanForSetter X varname isLocal st [] = None"
| "scanForSetter X varname isLocal st (s # ss) =
     (if isLocal \<and> branchIndents s < branchIndents st then None
      else
        (case varsBeingSet s of
           None \<Rightarrow> scanForSetter X varname isLocal st ss
         | Some vs \<Rightarrow>
             (case find (isSetterOf X varname isLocal) vs of
                Some v \<Rightarrow> Some (s, v)
              | None \<Rightarrow> scanForSetter X varname isLocal st ss)))"

definition neverSetMessage :: "string \<Rightarrow> string" where
  "neverSetMessage variableFull =
     ''The variable '' @ variableFull @ '' is never set, but is needed for this step''"

text \<open>
  \<open>findVarValue(varname, isLocal, step, branch)\<close> and \<open>replaceVars(text, step, branch)\<close>
  call each other. The first argument bounds the depth of the calls: where it is used up
  the runtime throws \<open>RangeError: Maximum call stack size exceeded\<close>, which \<open>replaceVars\<close>
  catches and turns into the error about an infinite loop. \<open>replaceVarsLoop\<close> is the loop
  of \<open>replaceVars\<close> over the matches of \<open>Constants.VAR\<close>.
\<close>

fun findVarValue :: "ext \<Rightarrow> nat \<Rightarrow> string \<Rightarrow> bool \<Rightarrow> step \<Rightarrow> branch option \<Rightarrow> inst \<Rightarrow> (nat + jsval) \<times> inst"
and replaceVars :: "ext \<Rightarrow> nat \<Rightarrow> jsval \<Rightarrow> step \<Rightarrow> branch option \<Rightarrow> inst \<Rightarrow> (nat + string) \<times> inst"
and replaceVarsLoop :: "ext \<Rightarrow> nat \<Rightarrow> string list \<Rightarrow> string \<Rightarrow> step \<Rightarrow> branch option \<Rightarrow> inst \<Rightarrow> (nat + string) \<times> inst"
where
  "findVarValue X 0 varname isLocal st br w =
     throwNew X ''RangeError'' ''Maximum call stack size exceeded'' w"
| "findVarValue X (Suc n) varname isLocal st br w =
     (case (if isLocal then getLocal X varname w else (Inr (getGlobal X varname w), w)) of
        (Inl e, w1) \<Rightarrow> (Inl e, w1)
      | (Inr v, w1) \<Rightarrow>
          if truthy v then (Inr v, w1)
          else
            (let variableFull = (if isLocal then ''{{'' @ varname @ ''}}'' else ''{'' @ varname @ ''}'');
                 bw = (case br of Some b \<Rightarrow> (b, w1) | None \<Rightarrow> newBranch [st] w1);
                 b = fst bw; w2 = snd bw
             in case indexOf st (steps b) of
                  None \<Rightarrow> throwTypeError X w2
                | Some i \<Rightarrow>
                    (case scanForSetter X varname isLocal st (drop i (steps b)) of
                       None \<Rightarrow> utilsError X (neverSetMessage variableFull) w2
                     | Some (s, vbs) \<Rightarrow>
                         (case (if hasCodeBlock s
                                then evalCodeBlock X (codeBlock s) (stepText s) (lineNumber s)
                                       (Some (StepTarget s)) True w2
                                else (Inr (Str (unescape X (stripQuotes X (vvalue vbs)))), w2)) of
                            (Inl e, w3) \<Rightarrow> (Inl e, w3)
                          | (Inr val, w3) \<Rightarrow>
                              (case (if isScalar val
                                     then (case replaceVars X n val st (Some b) w3 of
                                             (Inl e, w4) \<Rightarrow> (Inl e, w4)
                                           | (Inr t, w4) \<Rightarrow> (Inr (Str t), w4))
                                     else (Inr val, w3)) of
                                 (Inl e, w4) \<Rightarrow> (Inl e, w4)
                               | (Inr val', w4) \<Rightarrow>
                                   (Inr val',
                                    appendToLog
                                      (Str (''The value of variable '' @ variableFull
                                            @ '' is being set by a later step at ''
                                            @ (case filename s of None \<Rightarrow> ''undefined'' | Some f \<Rightarrow> f)
                                            @ '':'' @ showNat (lineNumber s)))
                                      (Some (StepTarget st)) w4))))))"
| "replaceVars X 0 txt st br w =
     throwNew X ''RangeError'' ''Maximum call stack size exceeded'' w"
| "replaceVars X (Suc n) txt st br w =
     (case txt of
        Str t \<Rightarrow> replaceVarsLoop X n (matchVAR X t) t st br w
      | v \<Rightarrow> throwTypeError X w)"
| "replaceVarsLoop X n [] t st br w = (Inr t, w)"
| "replaceVarsLoop X n (m # ms) t st br w =
     (case findVarValue X n (stripBrackets X m) (startsWith m ''{{'') st br w of
        (Inl e, w1) \<Rightarrow>
          if ename (errs w1 e) = ''RangeError''
             \<and> message (errs w1 e) = Some ''Maximum call stack size exceeded''
          then utilsError X ''Infinite loop detected amongst variable references'' w1
          else (Inl e, w1)
      | (Inr v, w1) \<Rightarrow>
          if \<not> isScalar v
          then utilsError X (''The variable '' @ m @ '' must be set to a string'') w1
          else replaceVarsLoop X n ms (stringReplace X t m (jsToString v)) st br w1)"

subsection \<open>Running a step\<close>

text \<open>\<open>setPause(isPaused)\<close>\<close>

definition setPause :: "bool \<Rightarrow> inst \<Rightarrow> inst" where
  "setPause p w = w\<lparr>isPaused := p, runnerIsPaused := p\<rparr>"

text \<open>
  The loops of \<open>runStep\<close> over \<open>branch.beforeEveryStep\<close> and \<open>branch.afterEveryStep\<close>.
  \<open>Inr True\<close> says that the instance was stopped and \<open>runStep\<close> returns at once. The first
  loop breaks when a hook has failed the step, the second runs every hook.
\<close>

fun beforeEveryStepHooks :: "ext \<Rightarrow> step list \<Rightarrow> step \<Rightarrow> branch \<Rightarrow> inst \<Rightarrow> (nat + bool) \<times> inst" where
  "beforeEveryStepHooks X [] st b w = (Inr False, w)"
| "beforeEveryStepHooks X (s # ss) st b w =
     (case runHookStep X s (Some st) (Some b) False w of
        (Inl e, w1) \<Rightarrow> (Inl e, w1)
      | (Inr r, w1) \<Rightarrow>
          if isStopped w1 then (Inr True, w1)
          else if isFailed (stepObj w1 (ident st)) then (Inr False, w1)
          else beforeEveryStepHooks X ss st b w1)"

fun afterEveryStepHooks :: "ext \<Rightarrow> step list \<Rightarrow> step \<Rightarrow> branch \<Rightarrow> inst \<Rightarrow> (nat + bool) \<times> inst" where
  "afterEveryStepHooks X [] st b w = (Inr False, w)"
| "afterEveryStepHooks X (s # ss) st b w =
     (case runHookStep X s (Some st) (Some b) False w of
        (Inl e, w1) \<Rightarrow> (Inl e, w1)
      | (Inr r, w1) \<Rightarrow>
          if isStopped w1 then (Inr True, w1)
          else afterEveryStepHooks X ss st b w1)"

text \<open>
  The previous step: \<open>index = branch.steps.indexOf(step); if(index >= 1) prevStep =
  branch.steps[index - 1]\<close>, \<open>null\<close> otherwise.
\<close>

definition previousStep :: "step \<Rightarrow> branch \<Rightarrow> step option" where
  "previousStep st b =
     (case indexOf st (steps b) of
        None \<Rightarrow> None
      | Some i \<Rightarrow> if i \<ge> 1 then Some (steps b ! (i - 1)) else None)"

text \<open>
  The handling of the stack of local variables in \<open>runStep\<close>, up to and including
  \<open>this.localsPassedIntoFunc = {}\<close>. The loop \<open>for(i = 0; i < diff; i++) popLocalStack()\<close>
  is the \<open>diff\<close>-fold iteration of \<open>popLocalStack\<close>.
\<close>

definition handleLocalStack :: "step \<Rightarrow> branch \<Rightarrow> inst \<Rightarrow> inst" where
  "handleLocalStack st b w =
     (let w1 =
        (case previousStep st b of
           None \<Rightarrow> w
         | Some prevStep \<Rightarrow>
             (let prevStepWasACodeBlockFunc = (isFunctionCall prevStep \<and> hasCodeBlock prevStep) in
              if branchIndents st > branchIndents prevStep then
                (if \<not> prevStepWasACodeBlockFunc then pushLocalStack w else w)
              else if branchIndents st < branchIndents prevStep then
                (popLocalStack ^^ (branchIndents prevStep - branchIndents st)) w
              else
                (if prevStepWasACodeBlockFunc then popLocalStack w else w)))
      in w1\<lparr>localsPassedIntoFunc := Map.empty\<rparr>)"

text \<open>\<open>getLogValue(value)\<close>, as a template string renders it.\<close>

definition getLogValue :: "jsval \<Rightarrow> string" where
  "getLogValue v = (case v of Str s \<Rightarrow> ''\"'' @ s @ ''\"'' | u \<Rightarrow> jsToString u)"

text \<open>
  Passing inputs into a function call: the loop over \<open>varList\<close>, with \<open>inputList\<close> read at
  the same index. \<open>inputList[i]\<close> beyond the end is \<open>undefined\<close>, and \<open>value.match\<close> throws.
\<close>

fun passInputs :: "ext \<Rightarrow> string list \<Rightarrow> string list \<Rightarrow> step \<Rightarrow> branch \<Rightarrow> inst \<Rightarrow> (nat + unit) \<times> inst" where
  "passInputs X [] inputList st b w = (Inr (), w)"
| "passInputs X (v # vs) [] st b w = throwTypeError X w"
| "passInputs X (v # vs) (i # is) st b w =
     (let varname = stripBrackets X v in
      case (if isSTRING_LITERAL_WHOLE X i then
              (case replaceVars X (callStackDepth X) (Str (stripQuotes X i)) st (Some b) w of
                 (Inl e, w1) \<Rightarrow> (Inl e, w1)
               | (Inr t, w1) \<Rightarrow> (Inr (Str (unescape X t)), w1))
            else if isVAR_WHOLE X i then
              findVarValue X (callStackDepth X) (stripBrackets X i) (startsWith i ''{{'') st (Some b) w
            else (Inr (Str i), w)) of
        (Inl e, w1) \<Rightarrow> (Inl e, w1)
      | (Inr val, w1) \<Rightarrow>
          passInputs X vs is st b
            (appendToLog (Str (''Function parameter {{'' @ varname @ ''}} is '' @ getLogValue val))
               (Some (StepTarget st)) (setLocalPassedIn X varname val w1)))"

text \<open>The loop over \<open>step.varsBeingSet\<close> of a step \<open>{var}='str' [, {var2}='str', etc.]\<close>.\<close>

fun setVars :: "ext \<Rightarrow> varBeingSet list \<Rightarrow> step \<Rightarrow> branch \<Rightarrow> inst \<Rightarrow> (nat + unit) \<times> inst" where
  "setVars X [] st b w = (Inr (), w)"
| "setVars X (v # vs) st b w =
     (case replaceVars X (callStackDepth X) (Str (stripQuotes X (vvalue v))) st (Some b) w of
        (Inl e, w1) \<Rightarrow> (Inl e, w1)
      | (Inr t, w1) \<Rightarrow>
          (case setVarBeingSet X v (Str t) w1 of
             (Inl e, w2) \<Rightarrow> (Inl e, w2)
           | (Inr u, w2) \<Rightarrow>
               setVars X vs st b
                 (appendToLog
                    (Str (''Setting '' @ (if visLocal v then ''{{'' @ vname v @ ''}}'' else ''{'' @ vname v @ ''}'')
                          @ '' to '' @ getLogValue (Str t)))
                    (Some (StepTarget st)) w2)))"

text \<open>\<open>getLineNumberOffset(step)\<close>; \<open>None\<close> where the property chain is broken.\<close>

definition getLineNumberOffset :: "step \<Rightarrow> nat option" where
  "getLineNumberOffset st =
     (if isFunctionCall st \<and> \<not> isHook st
      then map_option snd (functionDeclarationInTree st)
      else Some (lineNumber st))"

text \<open>
  The \<open>try\<close> block of \<open>runStep\<close>. It ends normally (\<open>Done\<close>), by the \<open>return\<close> taken when
  the instance was stopped during the code block (\<open>Stopped\<close>), or by an exception
  (\<open>Thrown e inCodeBlock\<close>, with the value of the flag \<open>inCodeBlock\<close> at that moment).
\<close>

datatype tryResult = Done | Stopped | Thrown nat bool

definition tryInputs :: "ext \<Rightarrow> step \<Rightarrow> branch \<Rightarrow> inst \<Rightarrow> (nat + unit) \<times> inst" where
  "tryInputs X st b w =
     (if isFunctionCall st then
        (case functionDeclarationText st of
           None \<Rightarrow> throwTypeError X w
         | Some decl \<Rightarrow>
             (case matchVAR X decl of
                [] \<Rightarrow> (Inr (), w)
              | varList \<Rightarrow>
                  (case matchFUNCTION_INPUT X (stepText st) of
                     [] \<Rightarrow> (Inr (), w)
                   | inputList \<Rightarrow>
                       passInputs X varList
                         (if (case varsBeingSet st of None \<Rightarrow> False | Some vs \<Rightarrow> length vs > 0)
                          then tl inputList else inputList)
                         st b w)))
      else (Inr (), w))"

definition tryAssignments :: "ext \<Rightarrow> step \<Rightarrow> branch \<Rightarrow> inst \<Rightarrow> (nat + unit) \<times> inst" where
  "tryAssignments X st b w =
     (if \<not> isFunctionCall st \<and> \<not> hasCodeBlock st then
        (case varsBeingSet st of
           None \<Rightarrow> (Inr (), w)
         | Some vs \<Rightarrow> setVars X vs st b w)
      else (Inr (), w))"

definition tryCodeBlock :: "ext \<Rightarrow> step \<Rightarrow> inst \<Rightarrow> tryResult \<times> inst" where
  "tryCodeBlock X st w =
     (if hasCodeBlock st then
        (let w1 = (if isFunctionCall st then pushLocalStack w else w) in
         case getLineNumberOffset st of
           None \<Rightarrow> (let aw = newTypeError X w1 in (Thrown (fst aw) True, snd aw))
         | Some off \<Rightarrow>
             (case evalCodeBlock X (codeBlock st) (stepText st) off (Some (StepTarget st)) False w1 of
                (Inl e, w2) \<Rightarrow> (Thrown e True, w2)
              | (Inr retVal, w2) \<Rightarrow>
                  (case (case varsBeingSet st of
                           Some [v] \<Rightarrow> setVarBeingSet X v retVal w2
                         | other \<Rightarrow> (Inr (), w2)) of
                     (Inl e, w3) \<Rightarrow> (Thrown e False, w3)
                   | (Inr u, w3) \<Rightarrow> if isStopped w3 then (Stopped, w3) else (Done, w3))))
      else (Done, w))"

definition tryBlock :: "ext \<Rightarrow> step \<Rightarrow> branch \<Rightarrow> inst \<Rightarrow> tryResult \<times> inst" where
  "tryBlock X st b w =
     (case tryInputs X st b w of
        (Inl e, w1) \<Rightarrow> (Thrown e False, w1)
      | (Inr u, w1) \<Rightarrow>
          (case tryAssignments X st b w1 of
             (Inl e, w2) \<Rightarrow> (Thrown e False, w2)
           | (Inr u, w2) \<Rightarrow> tryCodeBlock X st w2))"

text \<open>
  The marking at the end of \<open>runStep\<close>, from \<open>let isPassed = !error\<close> to the arguments of
  \<open>this.tree.markStep(step, branch, isPassed, !!step.isExpectedFail == !isPassed, error,
  finishBranchNow, true)\<close>: the arguments, and the instance with the error made for a
  step that passed but was expected to fail.
\<close>

definition passedButExpectedToFail :: string where
  "passedButExpectedToFail = ''This step passed, but it was expected to fail (#)''"

definition markStepArguments :: "ext \<Rightarrow> step \<Rightarrow> branch \<Rightarrow> nat option \<Rightarrow> inst \<Rightarrow> markStepCall \<times> inst" where
  "markStepArguments X st b err w =
     (let passed = (err = None);
          ew = (if isExpectedFail st \<and> passed then
                  (let aw = newError X ''Error'' passedButExpectedToFail w
                   in (Some (fst aw),
                       updErr (fst aw) (\<lambda>r. r\<lparr>efilename := filename st,
                                                 elineNumber := Some (lineNumber st)\<rparr>) (snd aw)))
                else (err, w));
          finishBranchNow =
            (case err of
               None \<Rightarrow> False
             | Some e \<Rightarrow> if continue (errs w e) \<or> pauseOnFail w then False else True)
      in (\<lparr>mStep = st, mBranch = Some b, mIsPassed = passed,
           mAsExpected = (isExpectedFail st = (\<not> passed)), mError = fst ew,
           mFinishBranchNow = Some finishBranchNow, mContinueOnFail = Some True\<rparr>, snd ew))"

text \<open>
  The part of \<open>runStep\<close> guarded by \<open>if(!step.isFailed)\<close>: the local stack, the \<open>try\<close>
  block with its \<open>catch\<close>, and the marking. \<open>Inr True\<close> is the early \<open>return\<close>.
\<close>

definition runStepBody :: "ext \<Rightarrow> step \<Rightarrow> branch \<Rightarrow> inst \<Rightarrow> (nat + bool) \<times> inst" where
  "runStepBody X st b w =
     (case tryBlock X st b (handleLocalStack st b w) of
        (Stopped, w1) \<Rightarrow> (Inr True, w1)
      | (tr, w1) \<Rightarrow>
          (case (case tr of
                   Thrown e inCodeBlock \<Rightarrow>
                     if \<not> isStopped w1 then
                       (case fillErrorFromStep X e st inCodeBlock w1 of
                          (Inl t, w2) \<Rightarrow> (Inl t, w2)
                        | (Inr u, w2) \<Rightarrow> (Inr (Some e), w2))
                     else (Inr None, w1)
                 | other \<Rightarrow> (Inr None, w1)) of
             (Inl t, w2) \<Rightarrow> (Inl t, w2)
           | (Inr err, w2) \<Rightarrow>
               (let cw = markStepArguments X st b err w2
                in (Inr False, treeMarkStep X (fst cw) (snd cw)))))"

text \<open>
  The end of \<open>runStep\<close>: the After Every Step hooks, the pause of \<open>pauseOnFail\<close> when the
  step is not passed or not as expected, and the pause behind a step with \<open>isAfterDebug\<close>.
\<close>

definition runStepEnd :: "ext \<Rightarrow> step \<Rightarrow> branch \<Rightarrow> bool \<Rightarrow> inst \<Rightarrow> (nat + unit) \<times> inst" where
  "runStepEnd X st b overrideDebug w =
     (case (case afterEveryStep b of
              None \<Rightarrow> (Inr False, w)
            | Some hs \<Rightarrow> afterEveryStepHooks X hs st b w) of
        (Inl e, w1) \<Rightarrow> (Inl e, w1)
      | (Inr True, w1) \<Rightarrow> (Inr (), w1)
      | (Inr False, w1) \<Rightarrow>
          (let r = stepObj w1 (ident st);
               w2 = (if pauseOnFail w1 \<and> (\<not> isPassed r \<or> asExpected r \<noteq> Some True)
                     then setPause True w1 else w1)
           in if isAfterDebug st \<and> \<not> overrideDebug then (Inr (), setPause True w2)
              else (Inr (), w2)))"

text \<open>
  \<open>runStep(step, branch, overrideDebug)\<close>. \<open>Inl\<close> is an exception that leaves \<open>runStep\<close>
  (thrown inside a \<open>catch\<close> block, or by \<open>branch.beforeEveryStep\<close> when no branch is given).
\<close>

definition runStep :: "ext \<Rightarrow> step \<Rightarrow> branch option \<Rightarrow> bool \<Rightarrow> inst \<Rightarrow> (nat + unit) \<times> inst" where
  "runStep X st branch overrideDebug w =
     (if isBeforeDebug st \<and> \<not> overrideDebug then (Inr (), setPause True w)
      else
        (let w1 = w\<lparr>stepsRan := stepsRan w @ [st]\<rparr>;
             w2 = updStep st (\<lambda>r. r\<lparr>isPassed := False, isFailed := False,
                                    isSkipped := False, error := None\<rparr>) w1
         in case branch of
              None \<Rightarrow> throwTypeError X w2
            | Some b \<Rightarrow>
                (case (case beforeEveryStep b of
                         None \<Rightarrow> (Inr False, w2)
                       | Some hs \<Rightarrow> beforeEveryStepHooks X hs st b w2) of
                   (Inl e, w3) \<Rightarrow> (Inl e, w3)
                 | (Inr True, w3) \<Rightarrow> (Inr (), w3)
                 | (Inr False, w3) \<Rightarrow>
                     (case (if \<not> isFailed (stepObj w3 (ident st)) then runStepBody X st b w3
                            else (Inr False, w3)) of
                        (Inl e, w4) \<Rightarrow> (Inl e, w4)
                      | (Inr True, w4) \<Rightarrow> (Inr (), w4)
                      | (Inr False, w4) \<Rightarrow> runStepEnd X st b overrideDebug w4))))"

subsection \<open>Running branches\<close>

text \<open>
  \<open>Branch.isComplete\<close>, and, modelled from the spec, \<open>Step.isComplete\<close> (step.js is not among
  the sources): a step is complete once it is passed, failed or skipped.
\<close>

definition branchIsComplete :: "branch \<Rightarrow> inst \<Rightarrow> bool" where
  "branchIsComplete b w =
     (let r = branchObj w (bident b) in isPassed r \<or> isFailed r \<or> isSkipped r \<or> passedLastTime r)"

definition stepIsComplete :: "step \<Rightarrow> inst \<Rightarrow> bool" where
  "stepIsComplete s w =
     (let r = stepObj w (ident s) in isPassed r \<or> isFailed r \<or> isSkipped r)"

text \<open>
  \<open>checkForPaused\<close> and \<open>checkForStopped\<close> write to \<open>this.currBranch\<close> when the flag is set,
  which throws if there is no current branch; the time stamps they write are left out.
\<close>

definition checkForPaused :: "ext \<Rightarrow> inst \<Rightarrow> (nat + bool) \<times> inst" where
  "checkForPaused X w =
     (if isPaused w then
        (case currBranch w of None \<Rightarrow> throwTypeError X w | Some b \<Rightarrow> (Inr True, w))
      else (Inr False, w))"

definition checkForStopped :: "ext \<Rightarrow> inst \<Rightarrow> (nat + bool) \<times> inst" where
  "checkForStopped X w =
     (if isStopped w then
        (case currBranch w of None \<Rightarrow> throwTypeError X w | Some b \<Rightarrow> (Inr True, w))
      else (Inr False, w))"

text \<open>\<open>getNextReadyStep\<close> and \<open>toNextReadyStep\<close>; \<open>this.currBranch = this.tree.nextBranch()\<close>.\<close>

definition getNextReadyStep :: "ext \<Rightarrow> inst \<Rightarrow> step option \<times> inst" where
  "getNextReadyStep X w =
     (case currBranch w of
        None \<Rightarrow> (None, w)
      | Some b \<Rightarrow>
          if branchIsComplete b w then (None, w)
          else
            (case currStep w of
               None \<Rightarrow> treeNextStep X (Some b) None None w
             | Some s \<Rightarrow>
                 if stepIsComplete s w then treeNextStep X (Some b) None None w
                 else (Some s, w)))"

definition toNextReadyStep :: "ext \<Rightarrow> inst \<Rightarrow> inst" where
  "toNextReadyStep X w =
     (let nw = getNextReadyStep X w; w1 = snd nw in
      if fst nw = None \<or> map_option ident (currStep w1) \<noteq> map_option ident (fst nw)
      then (let sw = treeNextStep X (currBranch w1) (Some True) (Some True) w1
            in (snd sw)\<lparr>currStep := fst sw\<rparr>)
      else w1)"

definition toNextBranch :: "ext \<Rightarrow> inst \<Rightarrow> inst" where
  "toNextBranch X w = (let nb = treeNextBranch X w in (snd nb)\<lparr>currBranch := fst nb\<rparr>)"

text \<open>
  The loops of \<open>run()\<close> and \<open>runAfterEveryBranch()\<close> read \<open>this.currBranch\<close> and
  \<open>this.currStep\<close> anew in every round, and what they find there depends on the \<open>Tree\<close>
  and on the code blocks that ran: nothing bounds the number of rounds. Each loop
  function takes the number of rounds it may still make and returns \<open>None\<close> when that is
  used up. \<open>afterEveryBranchLoop X k i\<close> is the loop of \<open>runAfterEveryBranch\<close> from index
  \<open>i\<close>; \<open>Inr True\<close> says that it returned because the instance was stopped.
\<close>

fun afterEveryBranchLoop :: "ext \<Rightarrow> nat \<Rightarrow> nat \<Rightarrow> inst \<Rightarrow> ((nat + bool) \<times> inst) option" where
  "afterEveryBranchLoop X 0 i w = None"
| "afterEveryBranchLoop X (Suc k) i w =
     (case currBranch w of
        None \<Rightarrow> Some (throwTypeError X w)
      | Some b \<Rightarrow>
          (case afterEveryBranch b of
             None \<Rightarrow> Some (throwTypeError X w)
           | Some hs \<Rightarrow>
               if i < length hs then
                 (case runHookStep X (hs ! i) None (Some b) False w of
                    (Inl e, w1) \<Rightarrow> Some (Inl e, w1)
                  | (Inr r, w1) \<Rightarrow>
                      (case checkForStopped X w1 of
                         (Inl e, w2) \<Rightarrow> Some (Inl e, w2)
                       | (Inr True, w2) \<Rightarrow> Some (Inr True, w2)
                       | (Inr False, w2) \<Rightarrow> afterEveryBranchLoop X k (Suc i) w2))
               else Some (Inr False, w)))"

definition runAfterEveryBranch :: "ext \<Rightarrow> nat \<Rightarrow> inst \<Rightarrow> ((nat + unit) \<times> inst) option" where
  "runAfterEveryBranch X k w =
     (case currBranch w of
        None \<Rightarrow> Some (throwTypeError X w)
      | Some b \<Rightarrow>
          (case (if afterEveryBranch b \<noteq> None then afterEveryBranchLoop X k 0 w
                 else Some (Inr False, w)) of
             None \<Rightarrow> None
           | Some (Inl e, w1) \<Rightarrow> Some (Inl e, w1)
           | Some (Inr True, w1) \<Rightarrow> Some (Inr (), w1)
           | Some (Inr False, w1) \<Rightarrow>
               (case currBranch w1 of
                  None \<Rightarrow> Some (throwTypeError X w1)
                | Some b1 \<Rightarrow> Some (Inr (), w1))))"

text \<open>
  The loop of \<open>run()\<close> over \<open>this.currBranch.beforeEveryBranch\<close>, from index \<open>i\<close>. It ends
  by running through (\<open>Proceed\<close>), by the \<open>return\<close> of \<open>run()\<close> when the instance was
  stopped (\<open>Return\<close>), or, when a hook has failed the branch, after the After Every Branch
  hooks with the next branch as current branch (\<open>NextBranch\<close>, the \<open>continue\<close>).
\<close>

datatype loopExit = Proceed | Return | NextBranch

fun beforeEveryBranchLoop :: "ext \<Rightarrow> nat \<Rightarrow> nat \<Rightarrow> inst \<Rightarrow> ((nat + loopExit) \<times> inst) option" where
  "beforeEveryBranchLoop X 0 i w = None"
| "beforeEveryBranchLoop X (Suc k) i w =
     (case currBranch w of
        None \<Rightarrow> Some (throwTypeError X w)
      | Some b \<Rightarrow>
          (case beforeEveryBranch b of
             None \<Rightarrow> Some (throwTypeError X w)
           | Some hs \<Rightarrow>
               if i < length hs then
                 (case runHookStep X (hs ! i) None (Some b) False w of
                    (Inl e, w1) \<Rightarrow> Some (Inl e, w1)
                  | (Inr r, w1) \<Rightarrow>
                      (case checkForStopped X w1 of
                         (Inl e, w2) \<Rightarrow> Some (Inl e, w2)
                       | (Inr True, w2) \<Rightarrow> Some (Inr Return, w2)
                       | (Inr False, w2) \<Rightarrow>
                           (case currBranch w2 of
                              None \<Rightarrow> Some (throwTypeError X w2)
                            | Some b2 \<Rightarrow>
                                if isFailed (branchObj w2 (bident b2)) then
                                  (case runAfterEveryBranch X k w2 of
                                     None \<Rightarrow> None
                                   | Some (Inl e, w3) \<Rightarrow> Some (Inl e, w3)
                                   | Some (Inr u, w3) \<Rightarrow>
                                       (case currBranch w3 of
                                          None \<Rightarrow> Some (throwTypeError X w3)
                                        | Some b3 \<Rightarrow> Some (Inr NextBranch, toNextBranch X w3)))
                                else beforeEveryBranchLoop X k (Suc i) w2)))
               else Some (Inr Proceed, w)))"

text \<open>
  The loop \<open>while(this.currStep)\<close> of \<open>run()\<close>. The result says whether \<open>run()\<close> returns
  (paused or stopped), and gives the value of \<open>overrideDebug\<close> behind the loop, which is
  \<open>false\<close> once a step has run.
\<close>

fun stepsLoop :: "ext \<Rightarrow> nat \<Rightarrow> bool \<Rightarrow> inst \<Rightarrow> ((nat + bool \<times> bool) \<times> inst) option" where
  "stepsLoop X 0 overrideDebug w = None"
| "stepsLoop X (Suc k) overrideDebug w =
     (case currStep w of
        None \<Rightarrow> Some (Inr (False, overrideDebug), w)
      | Some st \<Rightarrow>
          (case runStep X st (currBranch w) overrideDebug w of
             (Inl e, w1) \<Rightarrow> Some (Inl e, w1)
           | (Inr u, w1) \<Rightarrow>
               (case checkForPaused X w1 of
                  (Inl e, w2) \<Rightarrow> Some (Inl e, w2)
                | (Inr True, w2) \<Rightarrow> Some (Inr (True, False), w2)
                | (Inr False, w2) \<Rightarrow>
                    (case checkForStopped X w2 of
                       (Inl e, w3) \<Rightarrow> Some (Inl e, w3)
                     | (Inr True, w3) \<Rightarrow> Some (Inr (True, False), w3)
                     | (Inr False, w3) \<Rightarrow> stepsLoop X k False (toNextReadyStep X w3)))))"

text \<open>
  The reset of the variables at the start of a branch run, in the loop
  \<open>while(this.currBranch)\<close> of \<open>run()\<close>: \<open>this.global = {}; Object.assign(this.global,
  this.runner.globalInit); this.local = {}; this.localStack = [];\<close> \<open>Object.assign\<close> copies
  the properties of \<open>globalInit\<close> into the new object.
\<close>

definition resetVariableState :: "inst \<Rightarrow> inst" where
  "resetVariableState w =
     w\<lparr>global := globalInit w, local := Some Map.empty, localStack := []\<rparr>"

text \<open>
  The loop \<open>while(this.currBranch)\<close> of \<open>run()\<close>: \<open>runLoop\<close> is the head of a round (the
  loop condition, the check for a stop, the reset of the variables) and \<open>runBranch\<close> the
  rest of it: the Before Every Branch hooks (unless \<open>run()\<close> resumed from a pause), the
  steps, the After Every Branch hooks and the move to the next branch. \<open>wasPaused\<close> and
  \<open>overrideDebug\<close> are the local variables of \<open>run()\<close>.
\<close>

fun runLoop :: "ext \<Rightarrow> nat \<Rightarrow> bool \<Rightarrow> bool \<Rightarrow> inst \<Rightarrow> ((nat + unit) \<times> inst) option"
and runBranch :: "ext \<Rightarrow> nat \<Rightarrow> bool \<Rightarrow> bool \<Rightarrow> inst \<Rightarrow> ((nat + unit) \<times> inst) option"
where
  "runLoop X 0 wasPaused overrideDebug w = None"
| "runLoop X (Suc k) wasPaused overrideDebug w =
     (case currBranch w of
        None \<Rightarrow> Some (Inr (), w)
      | Some b \<Rightarrow>
          (case checkForStopped X w of
             (Inl e, w1) \<Rightarrow> Some (Inl e, w1)
           | (Inr True, w1) \<Rightarrow> Some (Inr (), w1)
           | (Inr False, w1) \<Rightarrow> runBranch X k wasPaused overrideDebug (resetVariableState w1)))"
| "runBranch X k wasPaused overrideDebug w =
     (case currBranch w of
        None \<Rightarrow> Some (throwTypeError X w)
      | Some b \<Rightarrow>
          (case (if beforeEveryBranch b \<noteq> None \<and> \<not> wasPaused
                 then beforeEveryBranchLoop X k 0 w else Some (Inr Proceed, w)) of
             None \<Rightarrow> None
           | Some (Inl e, w1) \<Rightarrow> Some (Inl e, w1)
           | Some (Inr Return, w1) \<Rightarrow> Some (Inr (), w1)
           | Some (Inr NextBranch, w1) \<Rightarrow> runLoop X k wasPaused overrideDebug w1
           | Some (Inr Proceed, w1) \<Rightarrow>
               (case currBranch w1 of
                  None \<Rightarrow> Some (throwTypeError X w1)
                | Some b1 \<Rightarrow>
                    (case (if \<not> branchIsComplete b1 w1
                           then stepsLoop X k overrideDebug (toNextReadyStep X w1)
                           else Some (Inr (False, overrideDebug), w1)) of
                       None \<Rightarrow> None
                     | Some (Inl e, w2) \<Rightarrow> Some (Inl e, w2)
                     | Some (Inr (True, od), w2) \<Rightarrow> Some (Inr (), w2)
                     | Some (Inr (False, od), w2) \<Rightarrow>
                         (case runAfterEveryBranch X k w2 of
                            None \<Rightarrow> None
                          | Some (Inl e, w3) \<Rightarrow> Some (Inl e, w3)
                          | Some (Inr u, w3) \<Rightarrow>
                              runLoop X k wasPaused od (toNextBranch X w3))))))"

text \<open>
  \<open>run()\<close>: refuse a stopped instance; resume if paused (the next step then overrides a
  debug pause) or fetch the first branch; then run the loop. \<open>None\<close> when the given number
  of rounds does not suffice.
\<close>

definition run :: "ext \<Rightarrow> nat \<Rightarrow> inst \<Rightarrow> ((nat + unit) \<times> inst) option" where
  "run X k w =
     (if isStopped w then Some (utilsError X ''Cannot run a stopped runner'' w)
      else if isPaused w then runLoop X k True True (setPause False w)
      else runLoop X k False False (toNextBranch X w))"

subsection \<open>Concrete inputs\<close>

text \<open>
  Plain inputs for concrete runs: a step without flags, a branch of given steps, a \<open>Tree\<close>
  that records a mark on the step and keeps a recorded error when it is given none,
  collaborators that do nothing (or whose code blocks always throw the error at a given
  address), and a stack trace with two code block frames.
\<close>

definition plainStep :: "nat \<Rightarrow> nat \<Rightarrow> string \<Rightarrow> step" where
  "plainStep i n t =
     \<lparr>ident = i, filename = Some ''file.smash'', lineNumber = n, line = t, stepText = t,
      branchIndents = 0, isFunctionCall = False, isHook = False, isPackaged = False,
      isBeforeDebug = False, isAfterDebug = False, isExpectedFail = False,
      codeBlock = None, functionDeclarationText = None, functionDeclarationInTree = None,
      varsBeingSet = None\<rparr>"

definition plainBranch :: "nat \<Rightarrow> step list \<Rightarrow> branch" where
  "plainBranch i ss = \<lparr>bident = i, steps = ss, beforeEveryBranch = None, afterEveryBranch = None,
     beforeEveryStep = None, afterEveryStep = None\<rparr>"

definition plainMarkStep :: "markStepCall \<Rightarrow> inst \<Rightarrow> inst" where
  "plainMarkStep c w =
     updStep (mStep c)
       (\<lambda>r. r\<lparr>isPassed := mIsPassed c, isFailed := \<not> mIsPassed c, isSkipped := False,
              asExpected := Some (mAsExpected c),
              error := (case mError c of None \<Rightarrow> error r | Some e \<Rightarrow> Some e)\<rparr>) w"

definition plainExt :: ext where
  "plainExt =
     \<lparr>canonicalize = (\<lambda>s. s), keepCaseCanonicalize = (\<lambda>s. s), stripQuotes = (\<lambda>s. s),
      stripBrackets = (\<lambda>s. s), unescape = (\<lambda>s. s), matchVAR = (\<lambda>s. []),
      matchFUNCTION_INPUT = (\<lambda>s. []), isSTRING_LITERAL_WHOLE = (\<lambda>s. False),
      isVAR_WHOLE = (\<lambda>s. False), stringReplace = (\<lambda>s p r. s),
      errorStack = (\<lambda>n m. n @ '': '' @ m), callStackDepth = 3,
      jsEval = (\<lambda>code funcName lineNo logHere isSync w. (Inr Undefined, w)),
      treeMarkStep = plainMarkStep,
      treeNextBranch = (\<lambda>w. (None, w)),
      treeNextStep = (\<lambda>b advance skipsRepeats w. (None, w))\<rparr>"

definition throwingExt :: "nat \<Rightarrow> ext" where
  "throwingExt e = plainExt\<lparr>jsEval := (\<lambda>code funcName lineNo logHere isSync w. (Inl e, w))\<rparr>"

definition twoFrames :: string where
  "twoFrames = ''Error: x'' @ [newline]
     @ ''    at CodeBlock_for_A (eval at evalCodeBlock (r.js:704:36), <anonymous>:12:23)'' @ [newline]
     @ ''    at CodeBlock_for_B (eval at evalCodeBlock (r.js:704:36), <anonymous>:10:5)''"

definition throwingStep :: step where
  "throwingStep = (plainStep 1 11 ''Open browser'')\<lparr>codeBlock := Some ''throw new Error()''\<rparr>"

definition thrownAt :: "nat \<Rightarrow> string \<Rightarrow> inst \<Rightarrow> inst" where
  "thrownAt a stk w = updErr a (\<lambda>r. r\<lparr>stack := Some stk\<rparr>) w"

definition afterHook :: step where
  "afterHook = (plainStep 9 3 ''After Every Branch'')\<lparr>isHook := True, codeBlock := Some ''throw new Error()''\<rparr>"



definition readingStep :: step where
  "readingStep = plainStep 1 2 ''say {x}''"

definition laterSetter :: step where
  "laterSetter = (plainStep 2 3 ''{x}=b'')
     \<lparr>varsBeingSet := Some [\<lparr>vname = ''x'', vvalue = ''b'', visLocal = False\<rparr>]\<rparr>"

definition expectedFailStep :: step where
  "expectedFailStep = (plainStep 1 7 ''Click missing button #'')\<lparr>isExpectedFail := True\<rparr>"

definition callerStep :: step where
  "callerStep = (plainStep 1 2 ''Open page'')\<lparr>branchIndents := 1\<rparr>"

definition calleeStep :: step where
  "calleeStep = (plainStep 2 9 ''Type name'')\<lparr>branchIndents := 2\<rparr>"

definition returnStep :: step where
  "returnStep = plainStep 3 3 ''Close page''"



text \<open>
  A call \<open>F [x] {y}\<close> of a function declared as \<open>F {{a}} {{b}}\<close>, with the collaborators
  as they answer on the strings of this call: \<open>Constants.VAR\<close> finds \<open>{{a}}\<close> and \<open>{{b}}\<close> in
  the declaration and nothing in \<open>x\<close>, \<open>Constants.FUNCTION_INPUT\<close> finds \<open>[x]\<close> and \<open>{y}\<close> in
  the text of the step, \<open>[x]\<close> is a whole string literal (\<open>'string', "string", or [string]\<close>)
  and \<open>{y}\<close> a whole variable (\<open>{var} or {{var}}\<close>), and \<open>utils.stripQuotes\<close> and
  \<open>utils.stripBrackets\<close> take the delimiters off. \<open>afterFailingCall\<close> is the instance
  after \<open>runStep\<close> has run the call as the only step of a branch, on a new instance.
\<close>

definition callExt :: ext where
  "callExt = plainExt
     \<lparr>stripQuotes := (\<lambda>s. if s = ''[x]'' then ''x'' else s),
      stripBrackets := (\<lambda>s. if s = ''{{a}}'' then ''a'' else if s = ''{{b}}'' then ''b''
                             else if s = ''{y}'' then ''y'' else s),
      matchVAR := (\<lambda>s. if s = ''F {{a}} {{b}}'' then [''{{a}}'', ''{{b}}''] else []),
      matchFUNCTION_INPUT := (\<lambda>s. if s = ''F [x] {y}'' then [''[x]'', ''{y}''] else []),
      isSTRING_LITERAL_WHOLE := (\<lambda>s. s = ''[x]''),
      isVAR_WHOLE := (\<lambda>s. s = ''{y}'')\<rparr>"

definition failingCall :: step where
  "failingCall = (plainStep 1 5 ''F [x] {y}'')
     \<lparr>isFunctionCall := True, functionDeclarationText := Some ''F {{a}} {{b}}''\<rparr>"

definition afterFailingCall :: inst where
  "afterFailingCall =
     snd (runStep callExt failingCall (Some (plainBranch 5 [failingCall])) False
            (newRunInstance Map.empty Map.empty False))"

section \<open>Properties\<close>

lemma popLocalStack_empty:
  "popLocalStack (w\<lparr>localStack := []\<rparr>) = w\<lparr>localStack := [], local := None\<rparr>"
  by (simp add: popLocalStack_def)

text \<open>
  C7. \<open>pushLocalStack\<close> appends the current local frame to \<open>localStack\<close>, makes \<open>local\<close> a
  fresh frame holding exactly the bindings of \<open>localsPassedIntoFunc\<close>, empties
  \<open>localsPassedIntoFunc\<close> and touches nothing else; \<open>popLocalStack\<close>, in any state whose
  stack holds at least one saved frame, makes the most recently saved frame the local
  frame, removes it from the stack and touches nothing else. In particular a pop undoes
  the stack effect of the matching push. (On an empty stack there is no saved frame:
  \<open>pop()\<close> gives \<open>undefined\<close>, see \<open>popLocalStack_empty\<close>.)
\<close>

theorem C7_push_pop_local_stack:
  "pushLocalStack w =
     w\<lparr>localStack := localStack w @ [local w],
       local := Some (localsPassedIntoFunc w),
       localsPassedIntoFunc := Map.empty\<rparr>
   \<and> local (pushLocalStack w) = Some (localsPassedIntoFunc w)
   \<and> localsPassedIntoFunc (pushLocalStack w) = Map.empty
   \<and> last (localStack (pushLocalStack w)) = local w
   \<and> butlast (localStack (pushLocalStack w)) = localStack w
   \<and> popLocalStack (w\<lparr>localStack := fs @ [f]\<rparr>) = w\<lparr>local := f, localStack := fs\<rparr>
   \<and> local (popLocalStack (pushLocalStack w)) = local w
   \<and> localStack (popLocalStack (pushLocalStack w)) = localStack w"
  by (simp add: pushLocalStack_def popLocalStack_def)

subsection \<open>Error locations\<close>

lemma trailingDigits_nonempty:
  "trailingDigits m \<noteq> [] \<longleftrightarrow> (m \<noteq> [] \<and> isDigit (last m))"
  by (cases m rule: rev_cases) (simp_all add: trailingDigits_def)

lemma anonymousTail_last:
  "anonymousTail s = Some t \<Longrightarrow> t \<noteq> [] \<and> isDigit (last t)"
proof -
  assume a: "anonymousTail s = Some t"
  let ?ds = "takeWhile isDigit (drop 12 s)"
  from a have ne: "?ds \<noteq> []" and t: "t = ''<anonymous>:'' @ ?ds"
    by (auto simp: anonymousTail_def split: if_splits)
  from ne have "last ?ds \<in> set ?ds" by simp
  then have "isDigit (last ?ds)" by (meson set_takeWhileD)
  with ne t show ?thesis by simp
qed

lemma greedyRest_last:
  "greedyRest s = Some m \<Longrightarrow> m \<noteq> [] \<and> isDigit (last m)"
proof (induction s arbitrary: m)
  case Nil
  then show ?case by simp
next
  case (Cons c cs)
  show ?case
  proof (cases "if c \<noteq> newline then greedyRest cs else None")
    case None
    with Cons.prems have "anonymousTail (c # cs) = Some m" by simp
    then show ?thesis by (rule anonymousTail_last)
  next
    case (Some m')
    then have g: "greedyRest cs = Some m'" by (simp split: if_splits)
    from Some Cons.prems have m: "m = c # m'" by simp
    from Cons.IH[OF g] m show ?thesis by simp
  qed
qed

lemma matchFrameAt_last:
  "matchFrameAt s = Some m \<Longrightarrow> m \<noteq> [] \<and> isDigit (last m)"
  by (auto simp: matchFrameAt_def split: if_splits list.splits dest: greedyRest_last)

lemma matchCodeBlockFrames'_last:
  "m \<in> set (matchCodeBlockFrames' k s) \<Longrightarrow> m \<noteq> [] \<and> isDigit (last m)"
  by (induction k s rule: matchCodeBlockFrames'.induct)
     (auto split: option.splits dest: matchFrameAt_last)

lemma frame_trailingDigits:
  "matchCodeBlockFrames stk = m # ms \<Longrightarrow> trailingDigits m \<noteq> []"
proof -
  assume "matchCodeBlockFrames stk = m # ms"
  then have "m \<in> set (matchCodeBlockFrames' 0 stk)" by (simp add: matchCodeBlockFrames_def)
  then show ?thesis using matchCodeBlockFrames'_last trailingDigits_nonempty by blast
qed

text \<open>
  C1 (as amended). For an error thrown inside a code block of a step that is not packaged,
  whose stack holds at least one frame matching \<open>at CodeBlock...<anonymous>:N\<close>,
  \<open>fillErrorFromStep\<close> sets \<open>lineNumber\<close> to the \<open>N\<close> of the first such frame of the
  stack (the innermost code block), provided the step's function declaration can be
  reached where it is needed.
\<close>

theorem C1_lineNumber_from_first_frame:
  assumes inblock: "inCodeBlock" and unpackaged: "\<not> isPackaged st"
    and decl: "isFunctionCall st \<and> \<not> isHook st \<longrightarrow> functionDeclarationInTree st \<noteq> None"
    and stk: "stack (errs w e) = Some stk"
    and frames: "matchCodeBlockFrames stk \<noteq> []"
  shows "\<exists>w'. fillErrorFromStep X e st inCodeBlock w = (Inr (), w')
           \<and> elineNumber (errs w' e) = Some (parseInt (trailingDigits (hd (matchCodeBlockFrames stk))))"
proof -
  from frames obtain m ms where ms: "matchCodeBlockFrames stk = m # ms"
    by (cases "matchCodeBlockFrames stk") auto
  from frame_trailingDigits[OF ms] obtain d ds where ds: "trailingDigits m = d # ds"
    by (cases "trailingDigits m") auto
  show ?thesis
  proof (cases "isFunctionCall st \<and> \<not> isHook st")
    case True
    with decl obtain f n where "functionDeclarationInTree st = Some (f, n)" by auto
    with True inblock unpackaged stk ms ds show ?thesis
      by (simp add: fillErrorFromStep_def updErr_def)
  next
    case False
    with inblock unpackaged stk ms ds show ?thesis
      by (auto simp add: fillErrorFromStep_def updErr_def)
  qed
qed

theorem C1_witness:
  "matchCodeBlockFrames twoFrames \<noteq> []
   \<and> (\<exists>w'. fillErrorFromStep plainExt 0 throwingStep True
              (thrownAt 0 twoFrames (newRunInstance Map.empty Map.empty False)) = (Inr (), w')
          \<and> elineNumber (errs w' 0) = Some 12)"
proof -
  let ?w = "thrownAt 0 twoFrames (newRunInstance Map.empty Map.empty False)"
  have fr: "matchCodeBlockFrames twoFrames =
      [''at CodeBlock_for_A (eval at evalCodeBlock (r.js:704:36), <anonymous>:12'',
       ''at CodeBlock_for_B (eval at evalCodeBlock (r.js:704:36), <anonymous>:10'']"
    by (simp add: twoFrames_def matchCodeBlockFrames_def matchFrameAt_def startsWith_def
        newline_def anonymousTail_def isDigit_def)
  have n: "parseInt (trailingDigits ''at CodeBlock_for_A (eval at evalCodeBlock (r.js:704:36), <anonymous>:12'') = 12"
    by (simp add: trailingDigits_def parseInt_def isDigit_def)
  have h1: "\<not> isPackaged throwingStep" by (simp add: throwingStep_def plainStep_def)
  have h2: "isFunctionCall throwingStep \<and> \<not> isHook throwingStep \<longrightarrow> functionDeclarationInTree throwingStep \<noteq> None"
    by (simp add: throwingStep_def plainStep_def)
  have h3: "stack (errs ?w 0) = Some twoFrames" by (simp add: thrownAt_def updErr_def)
  have h4: "matchCodeBlockFrames twoFrames \<noteq> []" by (simp add: fr)
  from C1_lineNumber_from_first_frame[OF TrueI h1 h2 h3 h4, of plainExt] fr n h4
  show ?thesis by simp
qed

text \<open>
  The claim as stated takes \<open>N\<close> from the last matching frame. On a stack with the frames
  \<open><anonymous>:12\<close> and \<open><anonymous>:10\<close>, in this order, the line number becomes 12, while
  the last frame says 10.
\<close>

theorem C1_last_frame_counterexample:
  "elineNumber (errs (snd (fillErrorFromStep plainExt 0 throwingStep True
       (thrownAt 0 twoFrames (newRunInstance Map.empty Map.empty False)))) 0) = Some 12
   \<and> parseInt (trailingDigits (last (matchCodeBlockFrames twoFrames))) = 10"
proof -
  have fr: "matchCodeBlockFrames twoFrames =
      [''at CodeBlock_for_A (eval at evalCodeBlock (r.js:704:36), <anonymous>:12'',
       ''at CodeBlock_for_B (eval at evalCodeBlock (r.js:704:36), <anonymous>:10'']"
    by (simp add: twoFrames_def matchCodeBlockFrames_def matchFrameAt_def startsWith_def
        newline_def anonymousTail_def isDigit_def)
  show ?thesis
    by (simp add: fr fillErrorFromStep_def throwingStep_def plainStep_def thrownAt_def updErr_def
        newRunInstance_def blankError_def trailingDigits_def parseInt_def isDigit_def)
qed

subsection \<open>Logging after a stop\<close>

lemma isStopped_branchStop: "isStopped (branchStop b w) = isStopped w"
proof -
  have "isStopped (fold (\<lambda>s. updStep s f) xs w) = isStopped w" for xs f
    by (induction xs arbitrary: w) (simp_all add: updStep_def)
  then show ?thesis by (simp add: branchStop_def)
qed

lemma isStopped_stop: "isStopped (stop w)"
  by (simp add: stop_def Let_def isStopped_branchStop split: option.splits)

text \<open>
  C10. After \<open>stop()\<close>, and in any state in which \<open>isStopped\<close> is set, \<open>appendToLog\<close>
  returns the instance as it was, whatever the text and the log target: no log of a step
  or branch changes. Without a log target it is a no-op in every state. (No method of the
  instance clears \<open>isStopped\<close> again.)
\<close>

theorem C10_appendToLog_after_stop:
  "appendToLog item logHere (stop w) = stop w
   \<and> appendToLog item logHere (w\<lparr>isStopped := True\<rparr>) = w\<lparr>isStopped := True\<rparr>
   \<and> appendToLog item None w = w"
  by (simp add: appendToLog_def isStopped_stop split: option.splits)

subsection \<open>Hook failures\<close>

lemma markBranch_no_error:
  "markBranch X b False None w =
     (Inr (), updBranch b (\<lambda>r. r\<lparr>isFailed := True, isPassed := False,
                                  isRunning := False, isSkipped := False\<rparr>) w)"
  by (simp add: markBranch_def)

text \<open>
  C9. A hook throws the error \<open>e\<close>, and \<open>fillErrorFromStep\<close> fills it. Routed to a
  branch that already has an error \<open>a\<close> recorded, \<open>runHookStep\<close> marks the branch failed
  and leaves its \<open>error\<close> field at \<open>a\<close>; no error object is changed by the marking.
  Routed to a step that already has an error \<open>a\<close> recorded, \<open>runHookStep\<close> calls
  \<open>tree.markStep\<close> with no error (\<open>undefined\<close>), so that a \<open>Tree\<close> which leaves the
  step's \<open>error\<close> alone when it is given none keeps \<open>a\<close>; the branch, if one is given, is
  marked failed and gets no error.
\<close>

theorem C9_hook_failure_keeps_first_error:
  "(evalCodeBlock X (codeBlock hook) (stepText hook) (lineNumber hook) (Some (BranchTarget b)) isSync w
      = (Inl e, w1)
    \<and> fillErrorFromStep X e hook True w1 = (Inr (), w2)
    \<and> error (branchObj w2 (bident b)) = Some a
    \<longrightarrow> (\<exists>w'. runHookStep X hook None (Some b) isSync w = (Inr False, w')
           \<and> isFailed (branchObj w' (bident b))
           \<and> error (branchObj w' (bident b)) = Some a
           \<and> errs w' = errs w2))
   \<and>
   (evalCodeBlock X (codeBlock hook) (stepText hook) (lineNumber hook) (Some (StepTarget st)) isSync w
      = (Inl e, w1)
    \<and> fillErrorFromStep X e hook True w1 = (Inr (), w2)
    \<and> error (stepObj w2 (ident st)) = Some a
    \<longrightarrow> (let call = \<lparr>mStep = st, mBranch = None, mIsPassed = False, mAsExpected = False,
                       mError = None, mFinishBranchNow = None, mContinueOnFail = None\<rparr>;
             w3 = treeMarkStep X call w2
         in (\<exists>w'. runHookStep X hook (Some st) bo isSync w = (Inr False, w')
               \<and> stepObj w' = stepObj w3 \<and> errs w' = errs w3
               \<and> (case bo of None \<Rightarrow> True | Some b \<Rightarrow> isFailed (branchObj w' (bident b))
                                                      \<and> error (branchObj w' (bident b)) = error (branchObj w3 (bident b)))
               \<and> (error (stepObj w3 (ident st)) = error (stepObj w2 (ident st))
                    \<longrightarrow> error (stepObj w' (ident st)) = Some a))))"
proof (intro conjI impI)
  assume h: "evalCodeBlock X (codeBlock hook) (stepText hook) (lineNumber hook) (Some (BranchTarget b)) isSync w
      = (Inl e, w1)
    \<and> fillErrorFromStep X e hook True w1 = (Inr (), w2)
    \<and> error (branchObj w2 (bident b)) = Some a"
  then show "\<exists>w'. runHookStep X hook None (Some b) isSync w = (Inr False, w')
           \<and> isFailed (branchObj w' (bident b))
           \<and> error (branchObj w' (bident b)) = Some a
           \<and> errs w' = errs w2"
    by (simp add: runHookStep_def hookLogTarget_def markBranch_no_error updBranch_def)
next
  assume h: "evalCodeBlock X (codeBlock hook) (stepText hook) (lineNumber hook) (Some (StepTarget st)) isSync w
      = (Inl e, w1)
    \<and> fillErrorFromStep X e hook True w1 = (Inr (), w2)
    \<and> error (stepObj w2 (ident st)) = Some a"
  then show "let call = \<lparr>mStep = st, mBranch = None, mIsPassed = False, mAsExpected = False,
                       mError = None, mFinishBranchNow = None, mContinueOnFail = None\<rparr>;
             w3 = treeMarkStep X call w2
         in (\<exists>w'. runHookStep X hook (Some st) bo isSync w = (Inr False, w')
               \<and> stepObj w' = stepObj w3 \<and> errs w' = errs w3
               \<and> (case bo of None \<Rightarrow> True | Some b \<Rightarrow> isFailed (branchObj w' (bident b))
                                                      \<and> error (branchObj w' (bident b)) = error (branchObj w3 (bident b)))
               \<and> (error (stepObj w3 (ident st)) = error (stepObj w2 (ident st))
                    \<longrightarrow> error (stepObj w' (ident st)) = Some a))"
    by (cases bo) (simp_all add: runHookStep_def hookLogTarget_def markBranch_no_error updBranch_def Let_def)
qed

theorem C9_witness:
  "(\<exists>w'. runHookStep (throwingExt 0) afterHook None (Some (plainBranch 1 [])) False
            (updBranch (plainBranch 1 []) (\<lambda>r. r\<lparr>error := Some 7\<rparr>) (newRunInstance Map.empty Map.empty False))
          = (Inr False, w')
        \<and> isFailed (branchObj w' 1) \<and> error (branchObj w' 1) = Some 7)
   \<and> (\<exists>w'. runHookStep (throwingExt 0) afterHook (Some (plainStep 2 5 ''Click'')) (Some (plainBranch 1 [])) False
            (updStep (plainStep 2 5 ''Click'') (\<lambda>r. r\<lparr>error := Some 7\<rparr>) (newRunInstance Map.empty Map.empty False))
          = (Inr False, w')
        \<and> isFailed (branchObj w' 1) \<and> error (stepObj w' 2) = Some 7)"
proof -
  let ?w0 = "newRunInstance Map.empty Map.empty False"
  let ?b = "plainBranch 1 []"
  let ?st = "plainStep 2 5 ''Click''"
  let ?wb = "updBranch ?b (\<lambda>r. r\<lparr>error := Some 7\<rparr>) ?w0"
  let ?ws = "updStep ?st (\<lambda>r. r\<lparr>error := Some 7\<rparr>) ?w0"
  note defs = throwingExt_def plainExt_def afterHook_def plainStep_def plainBranch_def
    newRunInstance_def blankError_def blankResults_def evalCodeBlock_def fillErrorFromStep_def
    updErr_def updBranch_def updStep_def matchCodeBlockFrames_def plainMarkStep_def
  let ?wb2 = "snd (fillErrorFromStep (throwingExt 0) 0 afterHook True ?wb)"
  let ?ws2 = "snd (fillErrorFromStep (throwingExt 0) 0 afterHook True ?ws)"
  have hb: "evalCodeBlock (throwingExt 0) (codeBlock afterHook) (stepText afterHook)
              (lineNumber afterHook) (Some (BranchTarget ?b)) False ?wb = (Inl 0, ?wb)
      \<and> fillErrorFromStep (throwingExt 0) 0 afterHook True ?wb = (Inr (), ?wb2)
      \<and> error (branchObj ?wb2 (bident ?b)) = Some 7"
    by (simp add: defs)
  have hs: "evalCodeBlock (throwingExt 0) (codeBlock afterHook) (stepText afterHook)
              (lineNumber afterHook) (Some (StepTarget ?st)) False ?ws = (Inl 0, ?ws)
      \<and> fillErrorFromStep (throwingExt 0) 0 afterHook True ?ws = (Inr (), ?ws2)
      \<and> error (stepObj ?ws2 (ident ?st)) = Some 7"
    by (simp add: defs)
  have kept: "error (stepObj (treeMarkStep (throwingExt 0)
        \<lparr>mStep = ?st, mBranch = None, mIsPassed = False, mAsExpected = False,
         mError = None, mFinishBranchNow = None, mContinueOnFail = None\<rparr> ?ws2) (ident ?st))
      = error (stepObj ?ws2 (ident ?st))"
    by (simp add: defs)
  from C9_hook_failure_keeps_first_error
    [where X = "throwingExt 0" and hook = afterHook and b = ?b and isSync = False and w = ?wb
       and e = 0 and ?w1.0 = ?wb and a = 7 and ?w2.0 = ?wb2, THEN conjunct1, THEN mp, OF hb]
  have branchPart: "\<exists>w'. runHookStep (throwingExt 0) afterHook None (Some ?b) False ?wb = (Inr False, w')
        \<and> isFailed (branchObj w' 1) \<and> error (branchObj w' 1) = Some 7"
    by (auto simp: plainBranch_def)
  from C9_hook_failure_keeps_first_error
    [where X = "throwingExt 0" and hook = afterHook and st = ?st and isSync = False and w = ?ws
       and e = 0 and ?w1.0 = ?ws and a = 7 and bo = "Some ?b" and ?w2.0 = ?ws2,
     THEN conjunct2, THEN mp, OF hs] kept
  have stepPart: "\<exists>w'. runHookStep (throwingExt 0) afterHook (Some ?st) (Some ?b) False ?ws = (Inr False, w')
        \<and> isFailed (branchObj w' 1) \<and> error (stepObj w' 2) = Some 7"
    by (auto simp: plainBranch_def plainStep_def Let_def)
  from branchPart stepPart show ?thesis by simp
qed

subsection \<open>Resolving variables\<close>







lemma findVarValue_assigned_truthy:
  "truthy v \<Longrightarrow> global w (canonicalize X varname) = Some v \<Longrightarrow>
   findVarValue X (Suc n) varname False st br w = (Inr v, w)"
  "truthy v \<Longrightarrow> localsPassedIntoFunc w (canonicalize X varname) = None \<Longrightarrow> local w = Some l \<Longrightarrow>
   l (canonicalize X varname) = Some v \<Longrightarrow>
   findVarValue X (Suc n) varname True st br w = (Inr v, w)"
  "truthy v \<Longrightarrow> localsPassedIntoFunc w (canonicalize X varname) = Some v \<Longrightarrow>
   findVarValue X (Suc n) varname True st br w = (Inr v, w)"
  by (simp_all add: getGlobal_def getLocal_def getProp_def)

text \<open>
  C2, the code on assigned falsy values. \<open>findVarValue\<close> tests \<open>if(value)\<close>, so a variable
  assigned the empty string, \<open>0\<close> or \<open>false\<close> is treated as not assigned: with no later
  setter the call throws the error that the variable is never set, and with a later
  setter it returns that later value instead of the assigned one. (For truthy values
  the assigned value is returned at once: \<open>findVarValue_assigned_truthy\<close>.)
\<close>

theorem C2_assigned_falsy_value_is_not_returned:
  "(\<exists>e w'. findVarValue plainExt 3 ''x'' False readingStep (Some (plainBranch 5 [readingStep]))
              (setGlobal plainExt ''x'' (Str '''') (newRunInstance Map.empty Map.empty False)) = (Inl e, w')
         \<and> message (errs w' e) = Some ''The variable {x} is never set, but is needed for this step'')
   \<and> (\<exists>e w'. findVarValue plainExt 3 ''x'' False readingStep (Some (plainBranch 5 [readingStep]))
              (setGlobal plainExt ''x'' (Num 0) (newRunInstance Map.empty Map.empty False)) = (Inl e, w')
         \<and> message (errs w' e) = Some ''The variable {x} is never set, but is needed for this step'')
   \<and> (\<exists>e w'. findVarValue plainExt 3 ''x'' False readingStep (Some (plainBranch 5 [readingStep]))
              (setGlobal plainExt ''x'' (Bool False) (newRunInstance Map.empty Map.empty False)) = (Inl e, w')
         \<and> message (errs w' e) = Some ''The variable {x} is never set, but is needed for this step'')
   \<and> (\<exists>w'. findVarValue plainExt 3 ''x'' False readingStep (Some (plainBranch 5 [readingStep, laterSetter]))
              (setGlobal plainExt ''x'' (Str '''') (newRunInstance Map.empty Map.empty False)) = (Inr (Str ''b''), w'))"
  by (simp add: eval_nat_numeral setGlobal_def newRunInstance_def plainExt_def getGlobal_def getProp_def
      plainBranch_def readingStep_def laterSetter_def plainStep_def utilsError_def throwNew_def newError_def
      neverSetMessage_def isSetterOf_def hasCodeBlock_def appendToLog_def Let_def)

subsection \<open>Marking a step\<close>

lemma runStepBody_thrown:
  assumes "tryBlock X st b (handleLocalStack st b w) = (Thrown e inCodeBlock, w1)"
    and "\<not> isStopped w1"
    and "fillErrorFromStep X e st inCodeBlock w1 = (Inr (), w2)"
  shows "runStepBody X st b w =
           (Inr False, treeMarkStep X (fst (markStepArguments X st b (Some e) w2))
                         (snd (markStepArguments X st b (Some e) w2)))"
  using assms by (simp add: runStepBody_def Let_def)

lemma runStepBody_done:
  assumes "tryBlock X st b (handleLocalStack st b w) = (Done, w1)"
  shows "runStepBody X st b w =
           (Inr False, treeMarkStep X (fst (markStepArguments X st b None w1))
                         (snd (markStepArguments X st b None w1)))"
  using assms by (simp add: runStepBody_def Let_def)

lemma markStepArguments_error:
  "markStepArguments X st b (Some e) w =
     (\<lparr>mStep = st, mBranch = Some b, mIsPassed = False, mAsExpected = isExpectedFail st,
       mError = Some e, mFinishBranchNow = Some (\<not> (continue (errs w e) \<or> pauseOnFail w)),
       mContinueOnFail = Some True\<rparr>, w)"
  by (simp add: markStepArguments_def)

lemma markStepArguments_passed:
  "\<not> isExpectedFail st \<Longrightarrow> markStepArguments X st b None w =
     (\<lparr>mStep = st, mBranch = Some b, mIsPassed = True, mAsExpected = True,
       mError = None, mFinishBranchNow = Some False, mContinueOnFail = Some True\<rparr>, w)"
  by (simp add: markStepArguments_def)

lemma markStepArguments_passed_unexpectedly:
  "isExpectedFail st \<Longrightarrow> markStepArguments X st b None w =
     (\<lparr>mStep = st, mBranch = Some b, mIsPassed = True, mAsExpected = False,
       mError = Some (nextObj w), mFinishBranchNow = Some False, mContinueOnFail = Some True\<rparr>,
      updErr (nextObj w) (\<lambda>r. r\<lparr>efilename := filename st, elineNumber := Some (lineNumber st)\<rparr>)
        (snd (newError X ''Error'' passedButExpectedToFail w)))"
  by (simp add: markStepArguments_def Let_def newError_def)

text \<open>
  C3. When the \<open>try\<close> block of \<open>runStep\<close> throws (the step ends not passed) and the
  instance is not stopped, \<open>runStep\<close> calls \<open>tree.markStep\<close> with \<open>isPassed = false\<close> and
  \<open>finishBranchNow = true\<close>, except that \<open>finishBranchNow = false\<close> when the error carries
  \<open>continue\<close> or the runner has \<open>pauseOnFail\<close> set (or both). When the \<open>try\<close> block
  ends normally, the call has \<open>isPassed = true\<close> and \<open>finishBranchNow = false\<close>.
\<close>

theorem C3_finishBranchNow:
  "(tryBlock X st b (handleLocalStack st b w) = (Thrown e inCodeBlock, w1)
      \<and> \<not> isStopped w1
      \<and> fillErrorFromStep X e st inCodeBlock w1 = (Inr (), w2)
    \<longrightarrow> runStepBody X st b w =
          (Inr False,
           treeMarkStep X
             \<lparr>mStep = st, mBranch = Some b, mIsPassed = False, mAsExpected = isExpectedFail st,
              mError = Some e,
              mFinishBranchNow = Some (\<not> (continue (errs w2 e) \<or> pauseOnFail w2)),
              mContinueOnFail = Some True\<rparr> w2))
   \<and> (tryBlock X st b (handleLocalStack st b w) = (Done, w1)
    \<longrightarrow> (\<exists>err w2. runStepBody X st b w =
          (Inr False,
           treeMarkStep X
             \<lparr>mStep = st, mBranch = Some b, mIsPassed = True, mAsExpected = (\<not> isExpectedFail st),
              mError = err, mFinishBranchNow = Some False, mContinueOnFail = Some True\<rparr> w2)))"
proof (intro conjI impI)
  assume h: "tryBlock X st b (handleLocalStack st b w) = (Thrown e inCodeBlock, w1)
      \<and> \<not> isStopped w1 \<and> fillErrorFromStep X e st inCodeBlock w1 = (Inr (), w2)"
  then have "runStepBody X st b w =
      (Inr False, treeMarkStep X (fst (markStepArguments X st b (Some e) w2))
                         (snd (markStepArguments X st b (Some e) w2)))"
    by (intro runStepBody_thrown) auto
  then show "runStepBody X st b w =
          (Inr False,
           treeMarkStep X
             \<lparr>mStep = st, mBranch = Some b, mIsPassed = False, mAsExpected = isExpectedFail st,
              mError = Some e,
              mFinishBranchNow = Some (\<not> (continue (errs w2 e) \<or> pauseOnFail w2)),
              mContinueOnFail = Some True\<rparr> w2)"
    by (simp add: markStepArguments_error)
next
  assume h: "tryBlock X st b (handleLocalStack st b w) = (Done, w1)"
  then have r: "runStepBody X st b w =
      (Inr False, treeMarkStep X (fst (markStepArguments X st b None w1))
                         (snd (markStepArguments X st b None w1)))"
    by (rule runStepBody_done)
  show "\<exists>err w2. runStepBody X st b w =
          (Inr False,
           treeMarkStep X
             \<lparr>mStep = st, mBranch = Some b, mIsPassed = True, mAsExpected = (\<not> isExpectedFail st),
              mError = err, mFinishBranchNow = Some False, mContinueOnFail = Some True\<rparr> w2)"
  proof (cases "isExpectedFail st")
    case True
    with r show ?thesis
      by (simp add: markStepArguments_passed_unexpectedly) blast
  next
    case False
    with r show ?thesis
      by (simp add: markStepArguments_passed) blast
  qed
qed

theorem C3_witness:
  "runStepBody (throwingExt 0) throwingStep (plainBranch 5 [throwingStep])
       (newRunInstance Map.empty Map.empty False)
     = (Inr False,
        treeMarkStep (throwingExt 0)
          \<lparr>mStep = throwingStep, mBranch = Some (plainBranch 5 [throwingStep]), mIsPassed = False,
           mAsExpected = False, mError = Some 0, mFinishBranchNow = Some True,
           mContinueOnFail = Some True\<rparr>
          (snd (fillErrorFromStep (throwingExt 0) 0 throwingStep True
                  (newRunInstance Map.empty Map.empty False))))
   \<and> runStepBody (throwingExt 0) throwingStep (plainBranch 5 [throwingStep])
       (newRunInstance Map.empty Map.empty True)
     = (Inr False,
        treeMarkStep (throwingExt 0)
          \<lparr>mStep = throwingStep, mBranch = Some (plainBranch 5 [throwingStep]), mIsPassed = False,
           mAsExpected = False, mError = Some 0, mFinishBranchNow = Some False,
           mContinueOnFail = Some True\<rparr>
          (snd (fillErrorFromStep (throwingExt 0) 0 throwingStep True
                  (newRunInstance Map.empty Map.empty True))))
   \<and> (\<exists>err w2. runStepBody plainExt (plainStep 1 2 ''Click'') (plainBranch 5 [plainStep 1 2 ''Click''])
            (newRunInstance Map.empty Map.empty False)
          = (Inr False,
             treeMarkStep plainExt
               \<lparr>mStep = plainStep 1 2 ''Click'', mBranch = Some (plainBranch 5 [plainStep 1 2 ''Click'']),
                mIsPassed = True, mAsExpected = True, mError = err,
                mFinishBranchNow = Some False, mContinueOnFail = Some True\<rparr> w2))"
proof -
  let ?b = "plainBranch 5 [throwingStep]"
  note defs = throwingExt_def plainExt_def throwingStep_def plainStep_def plainBranch_def
    newRunInstance_def blankError_def blankResults_def evalCodeBlock_def fillErrorFromStep_def
    updErr_def matchCodeBlockFrames_def tryBlock_def tryInputs_def tryAssignments_def
    tryCodeBlock_def handleLocalStack_def previousStep_def hasCodeBlock_def getLineNumberOffset_def
  have h: "tryBlock (throwingExt 0) throwingStep ?b
             (handleLocalStack throwingStep ?b (newRunInstance Map.empty Map.empty p))
           = (Thrown 0 True, newRunInstance Map.empty Map.empty p)
      \<and> \<not> isStopped (newRunInstance Map.empty Map.empty p)
      \<and> fillErrorFromStep (throwingExt 0) 0 throwingStep True (newRunInstance Map.empty Map.empty p)
          = (Inr (), snd (fillErrorFromStep (throwingExt 0) 0 throwingStep True
                            (newRunInstance Map.empty Map.empty p)))" for p
    by (simp add: defs)
  have c: "continue (errs (snd (fillErrorFromStep (throwingExt 0) 0 throwingStep True
                            (newRunInstance Map.empty Map.empty p))) 0) = False"
      "pauseOnFail (snd (fillErrorFromStep (throwingExt 0) 0 throwingStep True
                            (newRunInstance Map.empty Map.empty p))) = p"
      "isExpectedFail throwingStep = False"
      "isExpectedFail (plainStep 1 2 ''Click'') = False" for p
    by (simp_all add: defs)
  have d: "tryBlock plainExt (plainStep 1 2 ''Click'') (plainBranch 5 [plainStep 1 2 ''Click''])
             (handleLocalStack (plainStep 1 2 ''Click'') (plainBranch 5 [plainStep 1 2 ''Click''])
                (newRunInstance Map.empty Map.empty False))
           = (Done, newRunInstance Map.empty Map.empty False)"
    by (simp add: defs)
  from C3_finishBranchNow[THEN conjunct1, THEN mp, OF h[of False]]
       C3_finishBranchNow[THEN conjunct1, THEN mp, OF h[of True]]
       C3_finishBranchNow[THEN conjunct2, THEN mp, OF d]
  show ?thesis
    unfolding c by simp
qed

text \<open>
  C4 (as amended). In every call of \<open>tree.markStep\<close> by \<open>runStep\<close>, \<open>asExpected\<close> equals
  \<open>(isPassed == !isExpectedFail)\<close>. For a step with \<open>isExpectedFail\<close> whose execution
  produced no error, \<open>runStep\<close> makes a new error that carries the step's own filename and
  line number and hands it to \<open>tree.markStep\<close> with \<open>isPassed = true\<close>,
  \<open>asExpected = false\<close> and \<open>finishBranchNow = false\<close>: the step is recorded as passed
  but not as expected, with the error attached. No other error object changes.
\<close>

theorem C4_asExpected_and_passed_but_expected_to_fail:
  "(tryBlock X st b (handleLocalStack st b w) = (Thrown e inCodeBlock, w1)
      \<and> \<not> isStopped w1
      \<and> fillErrorFromStep X e st inCodeBlock w1 = (Inr (), w2)
    \<longrightarrow> (\<exists>c. runStepBody X st b w = (Inr False, treeMarkStep X c w2)
           \<and> mStep c = st \<and> mIsPassed c = False \<and> mError c = Some e
           \<and> mAsExpected c = (mIsPassed c = (\<not> isExpectedFail st))))
   \<and> (tryBlock X st b (handleLocalStack st b w) = (Done, w1) \<and> \<not> isExpectedFail st
    \<longrightarrow> (\<exists>c. runStepBody X st b w = (Inr False, treeMarkStep X c w1)
           \<and> mStep c = st \<and> mIsPassed c = True \<and> mError c = None
           \<and> mAsExpected c = (mIsPassed c = (\<not> isExpectedFail st))))
   \<and> (tryBlock X st b (handleLocalStack st b w) = (Done, w1) \<and> isExpectedFail st
    \<longrightarrow> (\<exists>c w2 a. runStepBody X st b w = (Inr False, treeMarkStep X c w2)
           \<and> mStep c = st \<and> mIsPassed c = True
           \<and> mAsExpected c = (mIsPassed c = (\<not> isExpectedFail st))
           \<and> mAsExpected c = False \<and> mFinishBranchNow c = Some False
           \<and> mError c = Some a \<and> a = nextObj w1
           \<and> efilename (errs w2 a) = filename st
           \<and> elineNumber (errs w2 a) = Some (lineNumber st)
           \<and> message (errs w2 a) = Some passedButExpectedToFail
           \<and> (\<forall>a'. a' \<noteq> a \<longrightarrow> errs w2 a' = errs w1 a')))"
proof (intro conjI impI)
  assume h: "tryBlock X st b (handleLocalStack st b w) = (Thrown e inCodeBlock, w1)
      \<and> \<not> isStopped w1 \<and> fillErrorFromStep X e st inCodeBlock w1 = (Inr (), w2)"
  then have "runStepBody X st b w =
      (Inr False, treeMarkStep X (fst (markStepArguments X st b (Some e) w2))
                         (snd (markStepArguments X st b (Some e) w2)))"
    by (intro runStepBody_thrown) auto
  then show "\<exists>c. runStepBody X st b w = (Inr False, treeMarkStep X c w2)
           \<and> mStep c = st \<and> mIsPassed c = False \<and> mError c = Some e
           \<and> mAsExpected c = (mIsPassed c = (\<not> isExpectedFail st))"
    by (intro exI[of _ "fst (markStepArguments X st b (Some e) w2)"])
       (simp add: markStepArguments_error)
next
  assume h: "tryBlock X st b (handleLocalStack st b w) = (Done, w1) \<and> \<not> isExpectedFail st"
  then have "runStepBody X st b w =
      (Inr False, treeMarkStep X (fst (markStepArguments X st b None w1))
                         (snd (markStepArguments X st b None w1)))"
    by (intro runStepBody_done) auto
  with h show "\<exists>c. runStepBody X st b w = (Inr False, treeMarkStep X c w1)
           \<and> mStep c = st \<and> mIsPassed c = True \<and> mError c = None
           \<and> mAsExpected c = (mIsPassed c = (\<not> isExpectedFail st))"
    by (intro exI[of _ "fst (markStepArguments X st b None w1)"])
       (simp add: markStepArguments_passed)
next
  assume h: "tryBlock X st b (handleLocalStack st b w) = (Done, w1) \<and> isExpectedFail st"
  then have "runStepBody X st b w =
      (Inr False, treeMarkStep X (fst (markStepArguments X st b None w1))
                         (snd (markStepArguments X st b None w1)))"
    by (intro runStepBody_done) auto
  with h show "\<exists>c w2 a. runStepBody X st b w = (Inr False, treeMarkStep X c w2)
           \<and> mStep c = st \<and> mIsPassed c = True
           \<and> mAsExpected c = (mIsPassed c = (\<not> isExpectedFail st))
           \<and> mAsExpected c = False \<and> mFinishBranchNow c = Some False
           \<and> mError c = Some a \<and> a = nextObj w1
           \<and> efilename (errs w2 a) = filename st
           \<and> elineNumber (errs w2 a) = Some (lineNumber st)
           \<and> message (errs w2 a) = Some passedButExpectedToFail
           \<and> (\<forall>a'. a' \<noteq> a \<longrightarrow> errs w2 a' = errs w1 a')"
    by (intro exI[of _ "fst (markStepArguments X st b None w1)"]
              exI[of _ "snd (markStepArguments X st b None w1)"]
              exI[of _ "nextObj w1"])
       (simp add: markStepArguments_passed_unexpectedly newError_def updErr_def)
qed

theorem C4_witness:
  "(\<exists>c. runStepBody (throwingExt 0) throwingStep (plainBranch 5 [throwingStep])
            (newRunInstance Map.empty Map.empty False)
          = (Inr False, treeMarkStep (throwingExt 0) c
               (snd (fillErrorFromStep (throwingExt 0) 0 throwingStep True
                      (newRunInstance Map.empty Map.empty False))))
        \<and> mIsPassed c = False \<and> mAsExpected c = False)
   \<and> (\<exists>c. runStepBody plainExt (plainStep 1 2 ''Click'') (plainBranch 5 [plainStep 1 2 ''Click''])
            (newRunInstance Map.empty Map.empty False)
          = (Inr False, treeMarkStep plainExt c (newRunInstance Map.empty Map.empty False))
        \<and> mIsPassed c = True \<and> mAsExpected c = True)
   \<and> (\<exists>c w2. runStepBody plainExt expectedFailStep (plainBranch 5 [expectedFailStep])
            (newRunInstance Map.empty Map.empty False)
          = (Inr False, treeMarkStep plainExt c w2)
        \<and> mIsPassed c = True \<and> mAsExpected c = False \<and> mError c = Some 0
        \<and> efilename (errs w2 0) = Some ''file.smash'' \<and> elineNumber (errs w2 0) = Some 7)"
proof -
  note defs = throwingExt_def plainExt_def throwingStep_def plainStep_def plainBranch_def
    newRunInstance_def blankError_def blankResults_def evalCodeBlock_def fillErrorFromStep_def
    updErr_def matchCodeBlockFrames_def tryBlock_def tryInputs_def tryAssignments_def
    tryCodeBlock_def handleLocalStack_def previousStep_def hasCodeBlock_def getLineNumberOffset_def
    expectedFailStep_def
  let ?w = "newRunInstance Map.empty Map.empty False"
  have h1: "tryBlock (throwingExt 0) throwingStep (plainBranch 5 [throwingStep])
             (handleLocalStack throwingStep (plainBranch 5 [throwingStep]) ?w)
           = (Thrown 0 True, ?w)
      \<and> \<not> isStopped ?w
      \<and> fillErrorFromStep (throwingExt 0) 0 throwingStep True ?w
          = (Inr (), snd (fillErrorFromStep (throwingExt 0) 0 throwingStep True ?w))"
    by (simp add: defs)
  have h2: "tryBlock plainExt (plainStep 1 2 ''Click'') (plainBranch 5 [plainStep 1 2 ''Click''])
             (handleLocalStack (plainStep 1 2 ''Click'') (plainBranch 5 [plainStep 1 2 ''Click'']) ?w)
           = (Done, ?w) \<and> \<not> isExpectedFail (plainStep 1 2 ''Click'')"
    by (simp add: defs)
  have h3: "tryBlock plainExt expectedFailStep (plainBranch 5 [expectedFailStep])
             (handleLocalStack expectedFailStep (plainBranch 5 [expectedFailStep]) ?w)
           = (Done, ?w) \<and> isExpectedFail expectedFailStep"
    by (simp add: defs)
  have v: "isExpectedFail throwingStep = False" "isExpectedFail (plainStep 1 2 ''Click'') = False"
    "isExpectedFail expectedFailStep = True" "nextObj ?w = 0"
    "filename expectedFailStep = Some ''file.smash''" "lineNumber expectedFailStep = 7"
    by (simp_all add: defs)
  from C4_asExpected_and_passed_but_expected_to_fail[THEN conjunct1, THEN mp, OF h1]
  have p1: "\<exists>c. runStepBody (throwingExt 0) throwingStep (plainBranch 5 [throwingStep]) ?w
          = (Inr False, treeMarkStep (throwingExt 0) c
               (snd (fillErrorFromStep (throwingExt 0) 0 throwingStep True ?w)))
        \<and> mIsPassed c = False \<and> mAsExpected c = False"
    unfolding v by auto
  from C4_asExpected_and_passed_but_expected_to_fail[THEN conjunct2, THEN conjunct1, THEN mp, OF h2]
  have p2: "\<exists>c. runStepBody plainExt (plainStep 1 2 ''Click'') (plainBranch 5 [plainStep 1 2 ''Click'']) ?w
          = (Inr False, treeMarkStep plainExt c ?w)
        \<and> mIsPassed c = True \<and> mAsExpected c = True"
    unfolding v by auto
  from C4_asExpected_and_passed_but_expected_to_fail[THEN conjunct2, THEN conjunct2, THEN mp, OF h3]
  have p3: "\<exists>c w2. runStepBody plainExt expectedFailStep (plainBranch 5 [expectedFailStep]) ?w
          = (Inr False, treeMarkStep plainExt c w2)
        \<and> mIsPassed c = True \<and> mAsExpected c = False \<and> mError c = Some 0
        \<and> efilename (errs w2 0) = Some ''file.smash'' \<and> elineNumber (errs w2 0) = Some 7"
    unfolding v by auto
  from p1 p2 p3 show ?thesis by (intro conjI)
qed

text \<open>
  The claim as stated has such a step marked failed. With a \<open>Tree\<close> that records the mark
  it is given, a step \<open>#\<close> that runs through is passed, not failed: \<open>isPassed\<close>, the
  third argument of \<open>tree.markStep\<close>, is \<open>true\<close>.
\<close>

theorem C4_marked_failed_counterexample:
  "isExpectedFail expectedFailStep
   \<and> tryBlock plainExt expectedFailStep (plainBranch 5 [expectedFailStep])
        (handleLocalStack expectedFailStep (plainBranch 5 [expectedFailStep])
           (newRunInstance Map.empty Map.empty False))
      = (Done, newRunInstance Map.empty Map.empty False)
   \<and> mIsPassed (fst (markStepArguments plainExt expectedFailStep (plainBranch 5 [expectedFailStep]) None
                      (newRunInstance Map.empty Map.empty False))) = True
   \<and> isPassed (stepObj (snd (runStepBody plainExt expectedFailStep (plainBranch 5 [expectedFailStep])
                      (newRunInstance Map.empty Map.empty False))) (ident expectedFailStep)) = True
   \<and> isFailed (stepObj (snd (runStepBody plainExt expectedFailStep (plainBranch 5 [expectedFailStep])
                      (newRunInstance Map.empty Map.empty False))) (ident expectedFailStep)) = False"
  by (simp add: plainExt_def plainStep_def plainBranch_def
    newRunInstance_def blankError_def blankResults_def updStep_def
    updErr_def tryBlock_def tryInputs_def tryAssignments_def
    tryCodeBlock_def handleLocalStack_def previousStep_def hasCodeBlock_def
    expectedFailStep_def markStepArguments_def runStepBody_def newError_def plainMarkStep_def Let_def)

subsection \<open>The scope transition\<close>

lemma previousStep_adjacent:
  assumes "\<forall>s\<in>set (pre @ [p]). ident s \<noteq> ident c" and "steps b = pre @ p # c # rest"
  shows "previousStep c b = Some p"
proof -
  have "indexOf c (xs @ c # ys) = Some (length xs)" if "\<forall>s\<in>set xs. ident s \<noteq> ident c" for xs ys
    using that by (induction xs) simp_all
  from this[of "pre @ [p]" rest] assms have "indexOf c (steps b) = Some (Suc (length pre))"
    by simp
  with assms(2) show ?thesis
    by (simp add: previousStep_def nth_append)
qed

lemma localStack_pop:
  "length (localStack (popLocalStack w)) = length (localStack w) - 1"
  by (simp add: popLocalStack_def)

lemma localStack_pops:
  "length (localStack ((popLocalStack ^^ n) w)) = length (localStack w) - n"
  by (induction n) (simp_all add: localStack_pop)

text \<open>
  C5. Let \<open>p\<close> be the step before \<open>c\<close> in the branch. The scope transition of \<open>runStep\<close> on
  \<open>c\<close> pushes once if \<open>c\<close> has more \<open>branchIndents\<close> than \<open>p\<close>, unless \<open>p\<close> was a function
  call with a code block (then nothing happens); pops exactly
  \<open>p.branchIndents - c.branchIndents\<close> times if \<open>c\<close> has fewer; and with equal indents pops
  once if \<open>p\<close> was a function call with a code block and does nothing otherwise. Afterwards
  \<open>localsPassedIntoFunc\<close> is empty. The depth of \<open>localStack\<close> changes accordingly
  (subtraction on natural numbers stops at 0, as \<open>pop\<close> does on an empty array).
\<close>

theorem C5_scope_transition:
  assumes "previousStep c b = Some p"
  shows "handleLocalStack c b w =
           (if branchIndents c > branchIndents p then
              (if isFunctionCall p \<and> hasCodeBlock p then w else pushLocalStack w)
            else if branchIndents c < branchIndents p then
              (popLocalStack ^^ (branchIndents p - branchIndents c)) w
            else
              (if isFunctionCall p \<and> hasCodeBlock p then popLocalStack w else w))
           \<lparr>localsPassedIntoFunc := Map.empty\<rparr>
         \<and> length (localStack (handleLocalStack c b w)) =
           (if branchIndents c > branchIndents p then
              (if isFunctionCall p \<and> hasCodeBlock p then length (localStack w)
               else length (localStack w) + 1)
            else if branchIndents c < branchIndents p then
              length (localStack w) - (branchIndents p - branchIndents c)
            else
              (if isFunctionCall p \<and> hasCodeBlock p then length (localStack w) - 1
               else length (localStack w)))
         \<and> localsPassedIntoFunc (handleLocalStack c b w) = Map.empty"
  using assms
  by (simp add: handleLocalStack_def Let_def localStack_pops localStack_pop pushLocalStack_def)

theorem C5_witness:
  "previousStep calleeStep (plainBranch 5 [callerStep, calleeStep, returnStep]) = Some callerStep
   \<and> length (localStack (handleLocalStack calleeStep (plainBranch 5 [callerStep, calleeStep, returnStep])
                (newRunInstance Map.empty Map.empty False))) = 1
   \<and> previousStep returnStep (plainBranch 5 [callerStep, calleeStep, returnStep]) = Some calleeStep
   \<and> length (localStack (handleLocalStack returnStep (plainBranch 5 [callerStep, calleeStep, returnStep])
                ((newRunInstance Map.empty Map.empty False)
                   \<lparr>localStack := [None, Some Map.empty, Some Map.empty]\<rparr>))) = 1"
proof -
  let ?b = "plainBranch 5 [callerStep, calleeStep, returnStep]"
  note defs = callerStep_def calleeStep_def returnStep_def plainStep_def plainBranch_def
    newRunInstance_def hasCodeBlock_def
  have p1: "previousStep calleeStep ?b = Some callerStep"
    by (rule previousStep_adjacent[of "[]" _ _ _ "[returnStep]"]) (simp_all add: defs)
  have p2: "previousStep returnStep ?b = Some calleeStep"
    by (rule previousStep_adjacent[of "[callerStep]" _ _ _ "[]"]) (simp_all add: defs)
  from C5_scope_transition[OF p1, of "newRunInstance Map.empty Map.empty False", THEN conjunct2, THEN conjunct1]
  have d1: "length (localStack (handleLocalStack calleeStep ?b (newRunInstance Map.empty Map.empty False))) = 1"
    by (simp add: defs)
  from C5_scope_transition[OF p2, of "(newRunInstance Map.empty Map.empty False)
                   \<lparr>localStack := [None, Some Map.empty, Some Map.empty]\<rparr>", THEN conjunct2, THEN conjunct1]
  have d2: "length (localStack (handleLocalStack returnStep ?b
       ((newRunInstance Map.empty Map.empty False)\<lparr>localStack := [None, Some Map.empty, Some Map.empty]\<rparr>))) = 1"
    by (simp add: defs)
  from p1 d1 p2 d2 show ?thesis by (intro conjI)
qed

subsection \<open>Variables across branches\<close>


lemma localsPassedIntoFunc_setLocal:
  "localsPassedIntoFunc (snd (setLocal X n v w)) = localsPassedIntoFunc w"
  by (cases "local w")
     (simp_all add: setLocal_def throwTypeError_def newTypeError_def newError_def)

lemma getLocal_after_reset:
  "fst (getLocal X n (resetVariableState w)) = Inr (getProp (localsPassedIntoFunc w) (canonicalize X n))"
  by (cases "localsPassedIntoFunc w (canonicalize X n)")
     (simp_all add: getLocal_def resetVariableState_def getProp_def)

text \<open>
  Every round of the loop of \<open>run()\<close> that finds a current branch and the instance not
  stopped runs the branch (its hooks and steps) from the reset state. The reset makes
  \<open>global\<close> exactly \<open>runner.globalInit\<close>, makes \<open>local\<close> an empty frame and \<open>localStack\<close>
  empty, and changes nothing else: \<open>persistent\<close> stays as the previous branch left it,
  and so does \<open>localsPassedIntoFunc\<close>. Hence a persistent variable set before the reset
  still has its value after it, a global variable set before reads as \<open>globalInit\<close> has
  it (\<open>undefined\<close> if it has not), a variable set in the local frame is gone from the
  frame, and a local read after the reset gives what \<open>localsPassedIntoFunc\<close> holds.
\<close>

lemma runLoop_reset:
  "runLoop X (Suc k) wasPaused overrideDebug (w\<lparr>currBranch := Some b, isStopped := False\<rparr>)
     = runBranch X k wasPaused overrideDebug
         (resetVariableState (w\<lparr>currBranch := Some b, isStopped := False\<rparr>))"
  by (simp add: checkForStopped_def del: runBranch.simps)

lemma resetVariableState_effect:
  "global (resetVariableState w) = globalInit w
   \<and> local (resetVariableState w) = Some Map.empty
   \<and> localStack (resetVariableState w) = []
   \<and> persistent (resetVariableState w) = persistent w
   \<and> localsPassedIntoFunc (resetVariableState w) = localsPassedIntoFunc w
   \<and> resetVariableState w = w\<lparr>global := globalInit w, local := Some Map.empty, localStack := []\<rparr>
   \<and> getPersistent X n (resetVariableState (setPersistent X n v w)) = v
   \<and> getGlobal X n (resetVariableState (setGlobal X n v w)) = getProp (globalInit w) (canonicalize X n)
   \<and> local (resetVariableState (snd (setLocal X n v w))) = Some Map.empty
   \<and> fst (getLocal X n (resetVariableState (snd (setLocal X n v w))))
       = Inr (getProp (localsPassedIntoFunc w) (canonicalize X n))"
proof (intro conjI)
  show "getPersistent X n (resetVariableState (setPersistent X n v w)) = v"
    by (simp add: resetVariableState_def getPersistent_def setPersistent_def getProp_def)
  show "getGlobal X n (resetVariableState (setGlobal X n v w)) = getProp (globalInit w) (canonicalize X n)"
    by (simp add: resetVariableState_def getGlobal_def setGlobal_def)
  show "fst (getLocal X n (resetVariableState (snd (setLocal X n v w))))
       = Inr (getProp (localsPassedIntoFunc w) (canonicalize X n))"
    by (simp add: getLocal_after_reset localsPassedIntoFunc_setLocal)
qed (simp_all add: resetVariableState_def)

text \<open>
  C8. The reset at the start of a branch run leaves out \<open>localsPassedIntoFunc\<close>, the
  object that \<open>getLocal\<close> reads first and that \<open>runStep\<close> and \<open>pushLocalStack\<close> empty
  whenever they handle the local frame. So a local variable set during one branch can be
  visible at the start of the next: the call \<open>F [x] {y}\<close> of a function declared as
  \<open>F {{a}} {{b}}\<close> stages \<open>{{a}}\<close> as \<open>x\<close>, then fails because \<open>{y}\<close> is never set;
  \<open>runStep\<close> returns with the step marked failed, which ends the branch, and with the
  input still staged. After the reset for the next branch \<open>local\<close> and \<open>localStack\<close> are
  empty, and \<open>getLocal\<close> of \<open>a\<close> still returns \<open>x\<close>.
\<close>

theorem C8_staged_input_survives_reset:
  "fst (runStep callExt failingCall (Some (plainBranch 5 [failingCall])) False
          (newRunInstance Map.empty Map.empty False)) = Inr ()
   \<and> isFailed (stepObj afterFailingCall (ident failingCall))
   \<and> (case error (stepObj afterFailingCall (ident failingCall)) of
         None \<Rightarrow> None | Some e \<Rightarrow> message (errs afterFailingCall e))
       = Some (neverSetMessage ''{y}'')
   \<and> local afterFailingCall = Some Map.empty
   \<and> localsPassedIntoFunc afterFailingCall ''a'' = Some (Str ''x'')
   \<and> local (resetVariableState afterFailingCall) = Some Map.empty
   \<and> localStack (resetVariableState afterFailingCall) = []
   \<and> getLocal callExt ''a'' (resetVariableState afterFailingCall)
       = (Inr (Str ''x''), resetVariableState afterFailingCall)"
  by (simp add: afterFailingCall_def runStep_def runStepBody_def runStepEnd_def tryBlock_def
     tryInputs_def failingCall_def plainStep_def callExt_def plainExt_def handleLocalStack_def
     previousStep_def plainBranch_def eval_nat_numeral startsWith_def setLocalPassedIn_def
     appendToLog_def getGlobal_def getProp_def Let_def utilsError_def throwNew_def newError_def
     updStep_def newRunInstance_def fillErrorFromStep_def markStepArguments_def plainMarkStep_def
     getLocal_def resetVariableState_def updErr_def targetAppendToLog_def objAppendToLog_def
     getLogValue_def isSetterOf_def neverSetMessage_def blankResults_def blankError_def)

end
